theory Spec2Isabelle
  imports Complex_Main "HOL-Library.Char_ord" "HOL-Library.List_Lexorder"
begin

section \<open>JavaScript numbers\<close>

text \<open>
  The dashboard computes with JavaScript numbers. A number is read here as a real, or as
  one of the three non-finite values a division by zero or a failed parse produces:
  \<open>Infinity\<close>, \<open>-Infinity\<close> and \<open>NaN\<close>. The operators of this section are exact on
  finite values, and zero has no sign (a zero divisor counts as \<open>+0\<close>). They follow
  ECMAScript otherwise: \<open>NaN\<close> is absorbing, \<open>Infinity - Infinity\<close>, \<open>0 * Infinity\<close>,
  \<open>0 / 0\<close> and \<open>Infinity / Infinity\<close> are \<open>NaN\<close>, and every comparison with \<open>NaN\<close> is
  false. The rounding of IEEE 754 doubles and their range limit are the subject of the
  next section: the double arithmetic of the code is an exact operation followed by that
  rounding.
\<close>

datatype number = Fin real | PosInf | NegInf | NaN

instantiation number :: "{plus, minus, uminus, times, inverse, ord}"
begin

fun uminus_number :: "number \<Rightarrow> number" where
  "uminus_number (Fin a) = Fin (- a)"
| "uminus_number PosInf = NegInf"
| "uminus_number NegInf = PosInf"
| "uminus_number NaN = NaN"

fun plus_number :: "number \<Rightarrow> number \<Rightarrow> number" where
  "plus_number NaN _ = NaN"
| "plus_number _ NaN = NaN"
| "plus_number (Fin a) (Fin b) = Fin (a + b)"
| "plus_number PosInf NegInf = NaN"
| "plus_number NegInf PosInf = NaN"
| "plus_number PosInf _ = PosInf"
| "plus_number _ PosInf = PosInf"
| "plus_number NegInf _ = NegInf"
| "plus_number _ NegInf = NegInf"

definition minus_number :: "number \<Rightarrow> number \<Rightarrow> number" where
  "minus_number (a::number) b = a + (- b)"

fun times_number :: "number \<Rightarrow> number \<Rightarrow> number" where
  "times_number NaN _ = NaN"
| "times_number _ NaN = NaN"
| "times_number (Fin a) (Fin b) = Fin (a * b)"
| "times_number (Fin a) PosInf = (if a = 0 then NaN else if a < 0 then NegInf else PosInf)"
| "times_number (Fin a) NegInf = (if a = 0 then NaN else if a < 0 then PosInf else NegInf)"
| "times_number PosInf (Fin b) = (if b = 0 then NaN else if b < 0 then NegInf else PosInf)"
| "times_number NegInf (Fin b) = (if b = 0 then NaN else if b < 0 then PosInf else NegInf)"
| "times_number PosInf PosInf = PosInf"
| "times_number NegInf NegInf = PosInf"
| "times_number PosInf NegInf = NegInf"
| "times_number NegInf PosInf = NegInf"

fun divide_number :: "number \<Rightarrow> number \<Rightarrow> number" where
  "divide_number NaN _ = NaN"
| "divide_number _ NaN = NaN"
| "divide_number (Fin a) (Fin b) =
     (if b = 0 then (if a = 0 then NaN else if a < 0 then NegInf else PosInf)
      else Fin (a / b))"
| "divide_number (Fin a) _ = Fin 0"
| "divide_number PosInf (Fin b) = (if b < 0 then NegInf else PosInf)"
| "divide_number NegInf (Fin b) = (if b < 0 then PosInf else NegInf)"
| "divide_number _ _ = NaN"

fun inverse_number :: "number \<Rightarrow> number" where
  "inverse_number (Fin a) = (if a = 0 then PosInf else Fin (1 / a))"
| "inverse_number NaN = NaN"
| "inverse_number _ = Fin 0"

fun less_eq_number :: "number \<Rightarrow> number \<Rightarrow> bool" where
  "less_eq_number NaN _ = False"
| "less_eq_number _ NaN = False"
| "less_eq_number (Fin a) (Fin b) = (a \<le> b)"
| "less_eq_number NegInf _ = True"
| "less_eq_number _ PosInf = True"
| "less_eq_number _ _ = False"

fun less_number :: "number \<Rightarrow> number \<Rightarrow> bool" where
  "less_number NaN _ = False"
| "less_number _ NaN = False"
| "less_number (Fin a) (Fin b) = (a < b)"
| "less_number PosInf _ = False"
| "less_number _ NegInf = False"
| "less_number _ _ = True"

instance ..

end

text \<open>\<open>isNaN(x)\<close>, \<open>a === b\<close> on numbers, and the truth value of a number in a condition.\<close>

definition isNaN :: "number \<Rightarrow> bool" where
  "isNaN x = (x = NaN)"

definition strict_eq :: "number \<Rightarrow> number \<Rightarrow> bool" where
  "strict_eq a b = (a \<noteq> NaN \<and> b \<noteq> NaN \<and> a = b)"

definition truthy :: "number \<Rightarrow> bool" where
  "truthy x = (x \<noteq> NaN \<and> x \<noteq> Fin 0)"

definition is_integer :: "real \<Rightarrow> bool" where
  "is_integer y = (y = of_int \<lfloor>y\<rfloor>)"

text \<open>
  \<open>Math.pow(base, exponent)\<close>, by the cases of ECMAScript's \<open>Number::exponentiate\<close>:
  a finite base to an integral exponent is the integer power, a positive base to any other
  exponent the real power, and a negative base to a non-integral exponent is \<open>NaN\<close>.
\<close>

definition Math_pow :: "number \<Rightarrow> number \<Rightarrow> number" where
  "Math_pow base exponent =
     (case exponent of
        NaN \<Rightarrow> NaN
      | Fin y \<Rightarrow>
          if y = 0 then Fin 1
          else (case base of
                  NaN \<Rightarrow> NaN
                | PosInf \<Rightarrow> if 0 < y then PosInf else Fin 0
                | NegInf \<Rightarrow>
                    if 0 < y then (if is_integer y \<and> odd \<lfloor>y\<rfloor> then NegInf else PosInf)
                    else Fin 0
                | Fin x \<Rightarrow>
                    if x = 0 then (if 0 < y then Fin 0 else PosInf)
                    else if x < 0 \<and> \<not> is_integer y then NaN
                    else if is_integer y then Fin (x powi \<lfloor>y\<rfloor>)
                    else Fin (x powr y))
      | PosInf \<Rightarrow>
          (case base of
             NaN \<Rightarrow> NaN
           | Fin x \<Rightarrow> if 1 < \<bar>x\<bar> then PosInf else if \<bar>x\<bar> = 1 then NaN else Fin 0
           | _ \<Rightarrow> PosInf)
      | NegInf \<Rightarrow>
          (case base of
             NaN \<Rightarrow> NaN
           | Fin x \<Rightarrow> if 1 < \<bar>x\<bar> then Fin 0 else if \<bar>x\<bar> = 1 then NaN else PosInf
           | _ \<Rightarrow> Fin 0))"


text \<open>
  \<open>parseFloat(x.toFixed(d))\<close>: the value rounded to \<open>d\<close> decimals, a tie going away
  from zero. From \<open>1e21\<close> on \<open>toFixed\<close> prints the number itself, and a non-finite value
  prints as its name, which \<open>parseFloat\<close> reads back.
\<close>

definition toFixed :: "nat \<Rightarrow> number \<Rightarrow> number" where
  "toFixed d x =
     (case x of
        Fin a \<Rightarrow>
          if 10 ^ 21 \<le> \<bar>a\<bar> then Fin a
          else Fin (sgn a * of_int \<lfloor>\<bar>a\<bar> * 10 ^ d + 1 / 2\<rfloor> / 10 ^ d)
      | _ \<Rightarrow> x)"

section \<open>Rounding to binary64\<close>

text \<open>
  A JavaScript number is an IEEE 754 double, and an arithmetic operation returns the
  double nearest to the exact result, a tie going to the double with the even significand.
  \<open>round_half_even\<close> rounds a real to an integer in this way. The doubles around \<open>x\<close>
  are the multiples of \<open>2\<close> to the power \<open>ulp_exponent x\<close>: the binary exponent of \<open>x\<close>
  less 52 (a significand has 53 bits), and \<open>-1074\<close> for the subnormal range below \<open>2\<close> to
  the \<open>-1022\<close>. \<open>nearest64 x\<close> is the nearest such multiple, and \<open>binary64 x\<close> the
  number that results: an infinity when the magnitude reaches \<open>2\<close> to the \<open>1024\<close>.
  \<open>binary64\<close> of a decimal is also the double that a numeric literal denotes.
  \<open>round64\<close> is the rounding of the result of an exact operation on numbers. Zero stays
  unsigned; no negative zero arises in a computation on operands that are not negative.
\<close>

definition round_half_even :: "real \<Rightarrow> int" where
  "round_half_even q =
     (let n = \<lfloor>q\<rfloor>
      in if q - of_int n < 1 / 2 then n
         else if 1 / 2 < q - of_int n then n + 1
         else if even n then n else n + 1)"

definition ulp_exponent :: "real \<Rightarrow> int" where
  "ulp_exponent x = (if \<bar>x\<bar> < 2 powi (- 1022) then - 1074 else \<lfloor>log 2 \<bar>x\<bar>\<rfloor> - 52)"

definition nearest64 :: "real \<Rightarrow> real" where
  "nearest64 x =
     (let ulp = 2 powi ulp_exponent x
      in of_int (round_half_even (x / ulp)) * ulp)"

definition binary64 :: "real \<Rightarrow> number" where
  "binary64 x =
     (let y = nearest64 x
      in if 2 ^ 1024 \<le> y then PosInf
         else if y \<le> - (2 ^ 1024) then NegInf
         else Fin y)"

definition round64 :: "number \<Rightarrow> number" where
  "round64 a = (case a of Fin x \<Rightarrow> binary64 x | _ \<Rightarrow> a)"

section \<open>The deal model (DealModel.js)\<close>

record Calculations =
  actualCapRate :: number
  actualLTV :: number
  dscr :: number
  annualDebtService :: number
  debtConstant :: number
  spread :: number
  breakEvenNOI :: number
  monthlyPayment :: number

text \<open>The field \<open>calculations_cache\<close> is the source's \<open>_calculations\<close>, \<open>null\<close> until
  the first call of \<open>calculate\<close>.\<close>

record DealModel =
  propertyValue :: number
  annualNOI :: number
  loanAmount :: number
  interestRate :: number
  amortizationYears :: number
  sofrRate :: number
  calculations_cache :: "Calculations option"

definition new_DealModel ::
  "number \<Rightarrow> number \<Rightarrow> number \<Rightarrow> number \<Rightarrow> number \<Rightarrow> number \<Rightarrow> DealModel" where
  "new_DealModel pv noi loan rate years sofr =
     \<lparr>propertyValue = pv, annualNOI = noi, loanAmount = loan, interestRate = rate,
      amortizationYears = years, sofrRate = sofr, calculations_cache = None\<rparr>"

text \<open>\<open>calculate()\<close> returns the cached metrics when there are some; otherwise it
  computes them, stores them in the instance and returns them.\<close>

definition calculate :: "DealModel \<Rightarrow> Calculations \<times> DealModel" where
  "calculate m =
     (case calculations_cache m of
        Some c \<Rightarrow> (c, m)
      | None \<Rightarrow>
          let capRate = (annualNOI m / propertyValue m) * Fin 100;
              ltv = (loanAmount m / propertyValue m) * Fin 100;
              monthlyRate = (interestRate m / Fin 100) / Fin 12;
              totalPayments = amortizationYears m * Fin 12;
              payment =
                (if strict_eq monthlyRate (Fin 0) then loanAmount m / totalPayments
                 else loanAmount m * (monthlyRate * Math_pow (Fin 1 + monthlyRate) totalPayments)
                        / (Math_pow (Fin 1 + monthlyRate) totalPayments - Fin 1));
              debtService = payment * Fin 12;
              c = \<lparr>actualCapRate = capRate,
                   actualLTV = ltv,
                   dscr = annualNOI m / debtService,
                   annualDebtService = debtService,
                   debtConstant = (debtService / loanAmount m) * Fin 100,
                   spread = (interestRate m - sofrRate m) * Fin 100,
                   breakEvenNOI = debtService,
                   monthlyPayment = payment\<rparr>
          in (c, m\<lparr>calculations_cache := Some c\<rparr>))"

text \<open>
  \<open>calculate()\<close> with the arithmetic as a parameter: \<open>rd\<close> is applied to the result of
  every operation, in the order in which the source evaluates them (\<open>a * (b * c) / d\<close> is
  the product divided by \<open>d\<close>). With the identity for \<open>rd\<close> this is \<open>calculate\<close>, the
  computation on exact reals; with \<open>round64\<close> it is \<open>calculate_binary64\<close>, the
  computation on doubles. ECMAScript leaves the accuracy of \<open>Math.pow\<close> to the
  implementation; it is read here as the rounded exact power.
\<close>

definition calculate_rounded ::
  "(number \<Rightarrow> number) \<Rightarrow> DealModel \<Rightarrow> Calculations \<times> DealModel" where
  "calculate_rounded rd m =
     (case calculations_cache m of
        Some c \<Rightarrow> (c, m)
      | None \<Rightarrow>
          let capRate = rd (rd (annualNOI m / propertyValue m) * Fin 100);
              ltv = rd (rd (loanAmount m / propertyValue m) * Fin 100);
              monthlyRate = rd (rd (interestRate m / Fin 100) / Fin 12);
              totalPayments = rd (amortizationYears m * Fin 12);
              payment =
                (if strict_eq monthlyRate (Fin 0) then rd (loanAmount m / totalPayments)
                 else rd (rd (loanAmount m *
                            rd (monthlyRate *
                                rd (Math_pow (rd (Fin 1 + monthlyRate)) totalPayments)))
                        / rd (rd (Math_pow (rd (Fin 1 + monthlyRate)) totalPayments) - Fin 1)));
              debtService = rd (payment * Fin 12);
              c = \<lparr>actualCapRate = capRate,
                   actualLTV = ltv,
                   dscr = rd (annualNOI m / debtService),
                   annualDebtService = debtService,
                   debtConstant = rd (rd (debtService / loanAmount m) * Fin 100),
                   spread = rd (rd (interestRate m - sofrRate m) * Fin 100),
                   breakEvenNOI = debtService,
                   monthlyPayment = payment\<rparr>
          in (c, m\<lparr>calculations_cache := Some c\<rparr>))"

definition calculate_binary64 :: "DealModel \<Rightarrow> Calculations \<times> DealModel" where
  "calculate_binary64 m = calculate_rounded round64 m"

text \<open>
  The object that \<open>getCreditDecision\<close> returns. The decision is one of six fixed strings
  in the source (a symbol followed by the label in words, such as \<open>STRONG APPROVE\<close> or
  \<open>REVIEW REQUIRED\<close>); they are the constructors here. Colour and risk are strings.
\<close>

datatype decision_label =
  STRONG_APPROVE | APPROVE | CONDITIONAL | REVIEW_REQUIRED | HIGH_RISK | DECLINE

record CreditDecision =
  decision :: decision_label
  color :: string
  risk :: string

definition getCreditDecision :: "DealModel \<Rightarrow> CreditDecision \<times> DealModel" where
  "getCreditDecision m =
     (let (c, m') = calculate m
      in (if dscr c \<ge> Fin 1.40 \<and> actualLTV c \<le> Fin 70 \<and> actualCapRate c \<ge> Fin 6.0
          then \<lparr>decision = STRONG_APPROVE, color = ''#1ECD7D'', risk = ''LOW''\<rparr>
          else if dscr c \<ge> Fin 1.30 \<and> actualLTV c \<le> Fin 75 \<and> actualCapRate c \<ge> Fin 5.5
          then \<lparr>decision = APPROVE, color = ''#1ECD7D'', risk = ''LOW''\<rparr>
          else if dscr c \<ge> Fin 1.25 \<and> actualLTV c \<le> Fin 80 \<and> actualCapRate c \<ge> Fin 4.5
          then \<lparr>decision = CONDITIONAL, color = ''#C17B42'', risk = ''MEDIUM''\<rparr>
          else if dscr c \<ge> Fin 1.20 \<and> actualLTV c \<le> Fin 85 \<and> actualCapRate c \<ge> Fin 4.0
          then \<lparr>decision = REVIEW_REQUIRED, color = ''#371CA1'', risk = ''HIGH''\<rparr>
          else if dscr c \<ge> Fin 1.15 \<and> actualLTV c \<le> Fin 90
          then \<lparr>decision = HIGH_RISK, color = ''#DC3545'', risk = ''VERY_HIGH''\<rparr>
          else \<lparr>decision = DECLINE, color = ''#DC3545'', risk = ''UNACCEPTABLE''\<rparr>,
          m'))"

text \<open>\<open>validateInputs()\<close> collects one message for every check that fails; it computes
  no metric, and neither \<open>calculate\<close> nor \<open>getCreditDecision\<close> calls it.\<close>

definition validateInputs :: "DealModel \<Rightarrow> string list" where
  "validateInputs m =
     (if propertyValue m \<le> Fin 0 then [''Property value must be positive''] else []) @
     (if annualNOI m \<le> Fin 0 then [''Annual NOI must be positive''] else []) @
     (if loanAmount m \<le> Fin 0 then [''Loan amount must be positive''] else []) @
     (if interestRate m \<le> Fin 0 \<or> interestRate m > Fin 20
      then [''Interest rate must be between 0% and 20%''] else []) @
     (if amortizationYears m < Fin 1 \<or> amortizationYears m > Fin 50
      then [''Amortization must be between 1 and 50 years''] else []) @
     (if sofrRate m < Fin 0 \<or> sofrRate m > Fin 10
      then [''SOFR rate must be between 0% and 10%''] else []) @
     (if loanAmount m > propertyValue m
      then [''Loan amount cannot exceed property value''] else []) @
     (if annualNOI m > propertyValue m * Fin 0.2
      then [''NOI seems unusually high relative to property value''] else []) @
     (if interestRate m < sofrRate m
      then [''Interest rate should be higher than SOFR rate''] else [])"

record RiskLevel =
  risk_color :: string
  level :: string

definition getLTVRisk :: "number \<Rightarrow> RiskLevel" where
  "getLTVRisk ltv =
     (if ltv \<le> Fin 70 then \<lparr>risk_color = ''#1ECD7D'', level = ''CONSERVATIVE''\<rparr>
      else if ltv \<le> Fin 75 then \<lparr>risk_color = ''#371CA1'', level = ''STANDARD''\<rparr>
      else if ltv \<le> Fin 80 then \<lparr>risk_color = ''#C17B42'', level = ''AGGRESSIVE''\<rparr>
      else \<lparr>risk_color = ''#DC3545'', level = ''HIGH_RISK''\<rparr>)"

section \<open>The deal form of the dashboard (DashboardController.js)\<close>

text \<open>
  \<open>calculateDeal()\<close> reads six numbers from the form (\<open>parseFloat\<close> of each field, so
  \<open>NaN\<close> for an empty or malformed one). When one of them is \<open>NaN\<close> or not positive it
  alerts with the names of all such inputs and returns; otherwise it builds the model, with
  the months converted to years, and displays the metrics and the decision. The alert is the
  left result here and the displayed values the right one; the writes to the page are not
  modelled.
\<close>

record DealInputs =
  input_propertyValue :: number
  input_annualNOI :: number
  input_loanAmount :: number
  input_interestRate :: number
  input_amortizationMonths :: number
  input_sofrRate :: number

definition missingInputs :: "DealInputs \<Rightarrow> string list" where
  "missingInputs i =
     map fst (filter (\<lambda>(key, v). isNaN v \<or> v \<le> Fin 0)
       [(''propertyValue'', input_propertyValue i),
        (''annualNOI'', input_annualNOI i),
        (''loanAmount'', input_loanAmount i),
        (''interestRate'', input_interestRate i),
        (''amortizationMonths'', input_amortizationMonths i),
        (''sofrRate'', input_sofrRate i)])"

definition calculateDeal :: "DealInputs \<Rightarrow> string list + (Calculations \<times> CreditDecision)" where
  "calculateDeal i =
     (if length (missingInputs i) > 0 then Inl (missingInputs i)
      else
        let deal = new_DealModel (input_propertyValue i) (input_annualNOI i)
                     (input_loanAmount i) (input_interestRate i)
                     (input_amortizationMonths i / Fin 12) (input_sofrRate i);
            (calculations, deal') = calculate deal;
            (creditDecision, deal'') = getCreditDecision deal'
        in Inr (calculations, creditDecision))"


section \<open>The application entry point (app.js)\<close>

text \<open>
  The application has a deal calculator of its own. Its \<open>calculateDeal()\<close> reads each
  input as \<open>parseFloat(...) || 0\<close>, so a missing or malformed input becomes \<open>0\<close>; it
  shows an error when the property value or the income is not positive, and otherwise
  computes and displays the metrics and the decision.
\<close>

definition logical_or_zero :: "number \<Rightarrow> number" where
  "logical_or_zero x = (if truthy x then x else Fin 0)"

definition App_calculateDeal ::
  "number \<Rightarrow> number \<Rightarrow> number \<Rightarrow> number \<Rightarrow> number \<Rightarrow> number
     \<Rightarrow> string + (Calculations \<times> CreditDecision)" where
  "App_calculateDeal pv noi loan rate years treasury =
     (let propertyValue' = logical_or_zero pv;
          annualNOI' = logical_or_zero noi;
          loanAmount' = logical_or_zero loan;
          interestRate' = logical_or_zero rate;
          amortizationYears' = logical_or_zero years;
          treasuryRate' = logical_or_zero treasury
      in if propertyValue' \<le> Fin 0 \<or> annualNOI' \<le> Fin 0
         then Inl ''Please enter valid property value and NOI amounts''
         else
           let deal = new_DealModel propertyValue' annualNOI' loanAmount' interestRate'
                        amortizationYears' treasuryRate';
               (results, deal') = calculate deal;
               (creditDecision, deal'') = getCreditDecision deal'
           in Inr (results, creditDecision))"

section \<open>Market validation (MarketValidationService in ChartManager.js)\<close>

record ImpliedLTV =
  impliedLTV :: number
  riskLevel :: string
  message :: string
  implied_loanAmount :: number
  derivedPropertyValue :: number

text \<open>\<open>calculateImpliedLTV\<close> returns \<open>null\<close> for a missing loan amount or value
  (\<open>0\<close> or \<open>NaN\<close>) and for a value that is not positive.\<close>

definition calculateImpliedLTV :: "number \<Rightarrow> number \<Rightarrow> ImpliedLTV option" where
  "calculateImpliedLTV loan derived =
     (if \<not> truthy loan \<or> \<not> truthy derived \<or> derived \<le> Fin 0 then None
      else
        let ltv = (loan / derived) * Fin 100;
            (riskLevel', message') =
              (if ltv > Fin 85 then (''HIGH_RISK'', ''High LTV ratio - increased credit risk'')
               else if ltv > Fin 80 then (''AGGRESSIVE'', ''Aggressive LTV ratio'')
               else if ltv > Fin 75 then (''STANDARD'', ''Standard LTV ratio'')
               else (''CONSERVATIVE'', ''Conservative LTV ratio''))
        in Some \<lparr>impliedLTV = toFixed 1 ltv, riskLevel = riskLevel', message = message',
                  implied_loanAmount = loan, derivedPropertyValue = derived\<rparr>)"

section \<open>Strings and the parsing built-ins\<close>

text \<open>
  A field of a parsed CSV row is a string, or \<open>undefined\<close> when the line has fewer
  values than the header: \<open>string option\<close>. Strings are lists of 8-bit characters, read
  as code units; the white space of \<open>trim\<close>, \<open>parseInt\<close>, \<open>parseFloat\<close> and of
  \<open>\s\<close> is tab, line feed, vertical tab, form feed, carriage return, space and the
  no-break space.
\<close>

definition is_whitespace :: "char \<Rightarrow> bool" where
  "is_whitespace c =
     (c = CHR 0x09 \<or> c = CHR 0x0A \<or> c = CHR 0x0B \<or> c = CHR 0x0C \<or> c = CHR 0x0D
      \<or> c = CHR '' '' \<or> c = CHR 0xA0)"

definition trim :: "string \<Rightarrow> string" where
  "trim s = rev (dropWhile is_whitespace (rev (dropWhile is_whitespace s)))"

definition ToString :: "string option \<Rightarrow> string" where
  "ToString v = (case v of None \<Rightarrow> ''undefined'' | Some s \<Rightarrow> s)"

definition is_digit :: "char \<Rightarrow> bool" where
  "is_digit c = (CHR ''0'' \<le> c \<and> c \<le> CHR ''9'')"

definition is_letter :: "char \<Rightarrow> bool" where
  "is_letter c = ((CHR ''a'' \<le> c \<and> c \<le> CHR ''z'') \<or> (CHR ''A'' \<le> c \<and> c \<le> CHR ''Z''))"

text \<open>The value of a digit in a radix up to 16, when it is one.\<close>

definition digit_value :: "nat \<Rightarrow> char \<Rightarrow> nat option" where
  "digit_value radix c =
     (let v = (if is_digit c then Some (of_char c - 48)
               else if CHR ''a'' \<le> c \<and> c \<le> CHR ''f'' then Some (of_char c - 87)
               else if CHR ''A'' \<le> c \<and> c \<le> CHR ''F'' then Some (of_char c - 55)
               else None)
      in case v of Some n \<Rightarrow> if n < radix then Some n else None | None \<Rightarrow> None)"

definition is_radix_digit :: "nat \<Rightarrow> char \<Rightarrow> bool" where
  "is_radix_digit radix c = (digit_value radix c \<noteq> None)"

definition digits_value :: "nat \<Rightarrow> string \<Rightarrow> nat" where
  "digits_value radix ds = foldl (\<lambda>acc c. acc * radix + the (digit_value radix c)) 0 ds"

text \<open>A leading sign: \<open>(negative, rest)\<close>.\<close>

definition strip_sign :: "string \<Rightarrow> bool \<times> string" where
  "strip_sign s =
     (case s of
        [] \<Rightarrow> (False, s)
      | c # cs \<Rightarrow> if c = CHR ''-'' then (True, cs) else if c = CHR ''+'' then (False, cs)
                  else (False, s))"

text \<open>
  \<open>parseInt(string)\<close> without a radix: white space is skipped, a sign is read, a prefix
  \<open>0x\<close> or \<open>0X\<close> selects radix 16, and the longest run of digits gives the value;
  \<open>NaN\<close> when there is no digit.
\<close>

definition parseInt :: "string option \<Rightarrow> number" where
  "parseInt v =
     (let s = dropWhile is_whitespace (ToString v);
          (negative, s1) = strip_sign s;
          (radix, s2) = (if take 2 s1 = ''0x'' \<or> take 2 s1 = ''0X'' then (16, drop 2 s1)
                         else (10, s1));
          z = takeWhile (is_radix_digit radix) s2
      in if z = [] then NaN
         else Fin ((if negative then - 1 else 1) * real (digits_value radix z)))"

text \<open>
  The longest prefix of a string that is an unsigned decimal literal other than
  \<open>Infinity\<close> (digits, an optional fraction, an optional exponent that has at least one
  digit): its value and the rest of the string, or nothing when there is no such prefix.
\<close>

definition scan_exponent :: "string \<Rightarrow> int \<times> string" where
  "scan_exponent s =
     (case s of
        [] \<Rightarrow> (0, s)
      | c # cs \<Rightarrow>
          if c = CHR ''e'' \<or> c = CHR ''E'' then
            (let (negative, ds) = strip_sign cs;
                 digs = takeWhile is_digit ds
             in if digs = [] then (0, s)
                else ((if negative then - 1 else 1) * int (digits_value 10 digs),
                      dropWhile is_digit ds))
          else (0, s))"

definition scan_decimal :: "string \<Rightarrow> (real \<times> string) option" where
  "scan_decimal s =
     (let ip = takeWhile is_digit s;
          r1 = dropWhile is_digit s;
          (fp, r2) = (case r1 of
                        [] \<Rightarrow> ([], r1)
                      | c # cs \<Rightarrow> if c = CHR ''.''
                                  then (takeWhile is_digit cs, dropWhile is_digit cs)
                                  else ([], r1))
      in if ip = [] \<and> fp = [] then None
         else
           let (ex, r3) = scan_exponent r2
           in Some ((real (digits_value 10 ip)
                       + real (digits_value 10 fp) / 10 ^ length fp) * 10 powi ex,
                    r3))"

text \<open>\<open>parseFloat(string)\<close>: the longest prefix that is a signed decimal literal.\<close>

definition parseFloat :: "string option \<Rightarrow> number" where
  "parseFloat v =
     (let s = dropWhile is_whitespace (ToString v);
          (negative, s1) = strip_sign s
      in if take 8 s1 = ''Infinity'' then (if negative then NegInf else PosInf)
         else case scan_decimal s1 of
                None \<Rightarrow> NaN
              | Some (x, rest) \<Rightarrow> Fin ((if negative then - 1 else 1) * x))"

text \<open>
  \<open>Number(string)\<close>: the whole string, trimmed, must be a numeric literal; the empty
  string is \<open>0\<close>. Literals with the prefixes \<open>0x\<close>, \<open>0o\<close> and \<open>0b\<close> take no sign.
\<close>

definition radix_literal :: "nat \<Rightarrow> string \<Rightarrow> number" where
  "radix_literal radix ds =
     (if ds \<noteq> [] \<and> list_all (is_radix_digit radix) ds then Fin (real (digits_value radix ds))
      else NaN)"

definition Number :: "string \<Rightarrow> number" where
  "Number str =
     (let t = trim str
      in if t = [] then Fin 0
         else if take 2 t = ''0x'' \<or> take 2 t = ''0X'' then radix_literal 16 (drop 2 t)
         else if take 2 t = ''0o'' \<or> take 2 t = ''0O'' then radix_literal 8 (drop 2 t)
         else if take 2 t = ''0b'' \<or> take 2 t = ''0B'' then radix_literal 2 (drop 2 t)
         else
           let (negative, s1) = strip_sign t
           in if s1 = ''Infinity'' then (if negative then NegInf else PosInf)
              else case scan_decimal s1 of
                     None \<Rightarrow> NaN
                   | Some (x, rest) \<Rightarrow>
                       if rest = [] then Fin ((if negative then - 1 else 1) * x) else NaN)"

text \<open>\<open>str.split(sep)\<close> for a separator of one character.\<close>

fun split :: "char \<Rightarrow> string \<Rightarrow> string list" where
  "split sep [] = [[]]"
| "split sep (c # cs) =
     (if c = sep then [] # split sep cs
      else case split sep cs of
             p # ps \<Rightarrow> (c # p) # ps
           | [] \<Rightarrow> [[c]])"

text \<open>\<open>[...new Set(xs)]\<close>: the distinct values, in the order of their first occurrence.\<close>

definition Set_values :: "'a list \<Rightarrow> 'a list" where
  "Set_values xs = rev (remdups (rev xs))"

text \<open>
  \<open>Array.prototype.sort(comparefn)\<close>: a stable sort. The result of the comparator counts
  as \<open>0\<close> when it is \<open>NaN\<close>. The elements are inserted from the right, each before the
  first element it does not follow; for a comparator that is not a consistent order
  ECMAScript leaves the result to the implementation.
\<close>

fun insert_sorted :: "('a \<Rightarrow> 'a \<Rightarrow> number) \<Rightarrow> 'a \<Rightarrow> 'a list \<Rightarrow> 'a list" where
  "insert_sorted comparefn x [] = [x]"
| "insert_sorted comparefn x (y # ys) =
     (if comparefn x y > Fin 0 then y # insert_sorted comparefn x ys else x # y # ys)"

definition Array_sort :: "('a \<Rightarrow> 'a \<Rightarrow> number) \<Rightarrow> 'a list \<Rightarrow> 'a list" where
  "Array_sort comparefn xs = foldr (insert_sorted comparefn) xs []"

text \<open>\<open>Math.min(...xs)\<close> and \<open>Math.max(...xs)\<close>.\<close>

definition Math_min :: "number list \<Rightarrow> number" where
  "Math_min xs =
     foldl (\<lambda>a b. if isNaN a \<or> isNaN b then NaN else if b < a then b else a) PosInf xs"

definition Math_max :: "number list \<Rightarrow> number" where
  "Math_max xs =
     foldl (\<lambda>a b. if isNaN a \<or> isNaN b then NaN else if a < b then b else a) NegInf xs"

section \<open>The data service (DataService.js)\<close>

record RawRow =
  Sector :: "string option"
  Subsector :: "string option"
  Region :: "string option"
  Market :: "string option"
  H1_Low :: "string option"
  H1_High :: "string option"
  H2_Low :: "string option"
  H2_High :: "string option"
  Report_Year :: "string option"
  Report_Half :: "string option"

text \<open>A processed row is the raw row with four calculated fields; \<open>null\<close> is \<open>None\<close>.\<close>

record ProcessedRow = RawRow +
  h1_avg :: "number option"
  h2_avg :: "number option"
  period_key :: string
  is_valid_market :: bool

record DataService =
  data :: "RawRow list option"
  processedData :: "ProcessedRow list option"

text \<open>The truth value of a string that may be \<open>undefined\<close> or \<open>null\<close>.\<close>

definition truthy_string :: "string option \<Rightarrow> bool" where
  "truthy_string v = (case v of None \<Rightarrow> False | Some s \<Rightarrow> s \<noteq> [])"

definition isValidCapRate :: "string option \<Rightarrow> bool" where
  "isValidCapRate v = (let num = parseFloat v in \<not> isNaN num \<and> num \<ge> Fin 1 \<and> num \<le> Fin 15)"

text \<open>A regular expression \<open>/^word/i\<close> or \<open>/^word$/i\<close> on ASCII text.\<close>

definition to_lower :: "char \<Rightarrow> char" where
  "to_lower c = (if CHR ''A'' \<le> c \<and> c \<le> CHR ''Z'' then char_of (of_char c + (32::nat)) else c)"

definition starts_with_ci :: "string \<Rightarrow> string \<Rightarrow> bool" where
  "starts_with_ci word s = (map to_lower (take (length word) s) = map to_lower word)"

definition equals_ci :: "string \<Rightarrow> string \<Rightarrow> bool" where
  "equals_ci word s = (map to_lower s = map to_lower word)"

definition isValidMarket :: "string option \<Rightarrow> bool" where
  "isValidMarket market =
     (case market of
        None \<Rightarrow> False
      | Some m \<Rightarrow>
          if m = [] \<or> length m < 3 then False
          else
            let trimmed = trim m;
                invalid =
                  (equals_ci ''Market'' trimmed
                   \<or> starts_with_ci ''Looking Forward'' trimmed
                   \<or> starts_with_ci ''Figure'' trimmed
                   \<or> starts_with_ci ''After'' trimmed
                   \<or> starts_with_ci ''But fortune'' trimmed
                   \<or> equals_ci ''the'' trimmed
                   \<or> (length trimmed = 4 \<and> list_all is_digit trimmed)
                   \<or> (trimmed \<noteq> [] \<and> last trimmed = CHR ''%'' \<and> butlast trimmed \<noteq> []
                       \<and> list_all is_digit (butlast trimmed))
                   \<or> (trimmed \<noteq> [] \<and> \<not> is_letter (hd trimmed))
                   \<or> list_all is_whitespace trimmed)
            in if invalid then False
               else if \<not> list_ex is_letter trimmed \<or> length trimmed > 50 then False
               else True)"

definition calculateAverage :: "string option \<Rightarrow> string option \<Rightarrow> number option" where
  "calculateAverage low high =
     (let lowNum = parseFloat low; highNum = parseFloat high
      in if isNaN lowNum \<and> isNaN highNum then None
         else if isNaN lowNum then Some highNum
         else if isNaN highNum then Some lowNum
         else Some ((lowNum + highNum) / Fin 2))"

definition processData :: "RawRow list \<Rightarrow> ProcessedRow list" where
  "processData rawData =
     (let validData =
            filter (\<lambda>row.
              let year = parseInt (Report_Year row)
              in if isNaN year \<or> year < Fin 2020 \<or> year > Fin 2025 then False
                 else
                   let half = parseInt (Report_Half row)
                   in if isNaN half \<or> (\<not> strict_eq half (Fin 1) \<and> \<not> strict_eq half (Fin 2))
                      then False
                      else if \<not> truthy_string (Sector row) \<or> length (ToString (Sector row)) < 3
                      then False
                      else isValidCapRate (H1_Low row) \<or> isValidCapRate (H1_High row)
                           \<or> isValidCapRate (H2_Low row) \<or> isValidCapRate (H2_High row))
              rawData
      in map (\<lambda>row. RawRow.extend row
                (ProcessedRow.fields
                   (calculateAverage (H1_Low row) (H1_High row))
                   (calculateAverage (H2_Low row) (H2_High row))
                   (ToString (Report_Year row) @ ''_'' @ ToString (Report_Half row))
                   (isValidMarket (Market row))))
           validData)"

text \<open>\<open>loadCapRateData()\<close> once the CSV text is fetched and parsed into rows.\<close>

definition loadCapRateData :: "RawRow list \<Rightarrow> DataService" where
  "loadCapRateData rows = \<lparr>data = Some rows, processedData = Some (processData rows)\<rparr>"

definition getSectors :: "DataService \<Rightarrow> string list" where
  "getSectors svc =
     (case processedData svc of
        None \<Rightarrow> []
      | Some rows \<Rightarrow> sort (map ToString (filter truthy_string (Set_values (map Sector rows)))))"


text \<open>
  The comparator of \<open>getPeriods\<close>: the two pieces of a period key before and after the
  first underscores, as numbers. A key always has a first piece; a missing second piece is
  \<open>undefined\<close>, and the difference is then \<open>NaN\<close>.
\<close>

definition period_year :: "string \<Rightarrow> number" where
  "period_year k = (case map Number (split (CHR ''_'') k) of [] \<Rightarrow> NaN | y # rest \<Rightarrow> y)"

definition period_half :: "string \<Rightarrow> number" where
  "period_half k = (case map Number (split (CHR ''_'') k) of y # h # rest \<Rightarrow> h | _ \<Rightarrow> NaN)"

definition comparePeriods :: "string \<Rightarrow> string \<Rightarrow> number" where
  "comparePeriods a b =
     (let yearA = period_year a; halfA = period_half a;
          yearB = period_year b; halfB = period_half b
      in if \<not> strict_eq yearA yearB then yearA - yearB else halfA - halfB)"

definition getPeriods :: "DataService \<Rightarrow> string list" where
  "getPeriods svc =
     (case processedData svc of
        None \<Rightarrow> []
      | Some rows \<Rightarrow> Array_sort comparePeriods (Set_values (map period_key rows)))"

record Criteria =
  c_sector :: "string option"
  c_market :: "string option"
  c_period :: "string option"
  validMarketOnly :: bool

definition filterData :: "DataService \<Rightarrow> Criteria \<Rightarrow> ProcessedRow list" where
  "filterData svc criteria =
     (case processedData svc of
        None \<Rightarrow> []
      | Some rows \<Rightarrow>
          filter (\<lambda>row.
            if truthy_string (c_sector criteria) \<and> Sector row \<noteq> c_sector criteria then False
            else if truthy_string (c_market criteria) \<and> Market row \<noteq> c_market criteria then False
            else if truthy_string (c_period criteria) \<and> Some (period_key row) \<noteq> c_period criteria
            then False
            else if validMarketOnly criteria \<and> \<not> is_valid_market row then False
            else True)
            rows)"

text \<open>
  Three expressions that the aggregate functions repeat: \<open>a || b\<close> on two averages,
  \<open>rows.map(row => row.h1_avg || row.h2_avg).filter(rate => rate !== null)\<close>, and
  \<open>rates.reduce((sum, rate) => sum + rate, 0) / rates.length\<close>.
\<close>

definition logical_or :: "number option \<Rightarrow> number option \<Rightarrow> number option" where
  "logical_or a b = (case a of None \<Rightarrow> b | Some x \<Rightarrow> if truthy x then a else b)"

definition rates_of :: "ProcessedRow list \<Rightarrow> number list" where
  "rates_of rows =
     map the (filter (\<lambda>rate. rate \<noteq> None)
       (map (\<lambda>row. logical_or (h1_avg row) (h2_avg row)) rows))"

definition mean_of :: "number list \<Rightarrow> number" where
  "mean_of rates = foldl (\<lambda>sum rate. sum + rate) (Fin 0) rates / Fin (real (length rates))"

record TimeSeriesPoint =
  ts_period :: string
  ts_avgRate :: number
  ts_count :: nat

definition getTimeSeriesData ::
  "DataService \<Rightarrow> string option \<Rightarrow> string option \<Rightarrow> TimeSeriesPoint list" where
  "getTimeSeriesData svc sector market =
     (let filtered = filterData svc
            \<lparr>c_sector = sector, c_market = market, c_period = None, validMarketOnly = True\<rparr>;
          periods = getPeriods svc
      in concat (map (\<lambda>period.
           let periodData = filter (\<lambda>row. period_key row = period) filtered
           in if length periodData > 0 then
                (let avgRates = rates_of periodData
                 in if length avgRates > 0
                    then [\<lparr>ts_period = period, ts_avgRate = toFixed 2 (mean_of avgRates),
                           ts_count = length periodData\<rparr>]
                    else [])
              else [])
           periods))"

record SectorComparison =
  sc_sector :: string
  sc_avgRate :: number
  sc_count :: nat

definition getSectorComparison :: "DataService \<Rightarrow> SectorComparison list" where
  "getSectorComparison svc =
     filter (\<lambda>item. sc_avgRate item > Fin 0)
       (map (\<lambda>sector.
          let sectorData = filterData svc
                \<lparr>c_sector = Some sector, c_market = None, c_period = None,
                 validMarketOnly = True\<rparr>;
              rates = rates_of sectorData;
              avgRate = (if length rates > 0 then mean_of rates else Fin 0)
          in \<lparr>sc_sector = sector, sc_avgRate = toFixed 2 avgRate,
              sc_count = length sectorData\<rparr>)
          (getSectors svc))"



record MultiSectorTimeSeries =
  ms_periods :: "string list"
  ms_sectors :: "string list"
  ms_data :: "string \<rightharpoonup> number option list"

definition getMultiSectorTimeSeriesData ::
  "DataService \<Rightarrow> string option \<Rightarrow> string option \<Rightarrow> MultiSectorTimeSeries" where
  "getMultiSectorTimeSeriesData svc filterSector filterMarket =
     (let filtered = filterData svc
            \<lparr>c_sector = filterSector, c_market = filterMarket, c_period = None,
             validMarketOnly = True\<rparr>;
          periods = getPeriods svc;
          sectors = (if truthy_string filterSector then [ToString filterSector]
                     else getSectors svc)
      in \<lparr>ms_periods = periods,
          ms_sectors = sectors,
          ms_data = map_of (map (\<lambda>sector.
            (sector,
             map (\<lambda>period.
               let sectorPeriodData =
                     filter (\<lambda>row. period_key row = period \<and> Sector row = Some sector) filtered
               in if length sectorPeriodData > 0 then
                    (let rates = rates_of sectorPeriodData
                     in if length rates > 0 then Some (toFixed 2 (mean_of rates)) else None)
                  else None)
               periods))
            sectors)\<rparr>)"



definition pushed_rates :: "ProcessedRow list \<Rightarrow> number list" where
  "pushed_rates rows =
     concat (map (\<lambda>row.
       (case h1_avg row of None \<Rightarrow> [] | Some x \<Rightarrow> if truthy x then [x] else []) @
       (case h2_avg row of None \<Rightarrow> [] | Some x \<Rightarrow> if truthy x then [x] else []))
       rows)"


section \<open>The statements of the specification\<close>

text \<open>The five tier predicates of the credit decision table, over \<open>(dscr, LTV, capRate)\<close>.\<close>

definition tier_STRONG_APPROVE :: "number \<Rightarrow> number \<Rightarrow> number \<Rightarrow> bool" where
  "tier_STRONG_APPROVE d l c = (d \<ge> Fin 1.40 \<and> l \<le> Fin 70 \<and> c \<ge> Fin 6.0)"

definition tier_APPROVE :: "number \<Rightarrow> number \<Rightarrow> number \<Rightarrow> bool" where
  "tier_APPROVE d l c = (d \<ge> Fin 1.30 \<and> l \<le> Fin 75 \<and> c \<ge> Fin 5.5)"

definition tier_CONDITIONAL :: "number \<Rightarrow> number \<Rightarrow> number \<Rightarrow> bool" where
  "tier_CONDITIONAL d l c = (d \<ge> Fin 1.25 \<and> l \<le> Fin 80 \<and> c \<ge> Fin 4.5)"

definition tier_REVIEW_REQUIRED :: "number \<Rightarrow> number \<Rightarrow> number \<Rightarrow> bool" where
  "tier_REVIEW_REQUIRED d l c = (d \<ge> Fin 1.20 \<and> l \<le> Fin 85 \<and> c \<ge> Fin 4.0)"

definition tier_HIGH_RISK :: "number \<Rightarrow> number \<Rightarrow> number \<Rightarrow> bool" where
  "tier_HIGH_RISK d l c = (d \<ge> Fin 1.15 \<and> l \<le> Fin 90)"

text \<open>The risk label the table attaches to each decision.\<close>

fun tier_risk :: "decision_label \<Rightarrow> string" where
  "tier_risk STRONG_APPROVE = ''LOW''"
| "tier_risk APPROVE = ''LOW''"
| "tier_risk CONDITIONAL = ''MEDIUM''"
| "tier_risk REVIEW_REQUIRED = ''HIGH''"
| "tier_risk HIGH_RISK = ''VERY_HIGH''"
| "tier_risk DECLINE = ''UNACCEPTABLE''"


text \<open>
  The documented bounds of a deal input: positive property value, income and loan amount,
  an interest rate in \<open>(0, 20]\<close>, an amortization of 1 to 600 months, and a reference
  index rate of 0 to 10 percent. The predicate holds when one of them is violated.
\<close>

definition violates_documented_bound :: "DealInputs \<Rightarrow> bool" where
  "violates_documented_bound i =
     (input_propertyValue i \<le> Fin 0 \<or> input_annualNOI i \<le> Fin 0
      \<or> input_loanAmount i \<le> Fin 0
      \<or> input_interestRate i \<le> Fin 0 \<or> input_interestRate i > Fin 20
      \<or> input_amortizationMonths i < Fin 1 \<or> input_amortizationMonths i > Fin 600
      \<or> input_sofrRate i < Fin 0 \<or> input_sofrRate i > Fin 10)"


text \<open>
  A value is a valid cap rate when it parses as a number between 1 and 15; a row is
  admissible when its year parses to an integer from 2020 to 2025, its half parses to 1 or
  2, its sector is present with at least three characters, and one of its four rate fields
  is a valid cap rate.
\<close>

definition valid_cap_rate :: "string option \<Rightarrow> bool" where
  "valid_cap_rate raw = (case parseFloat raw of Fin x \<Rightarrow> 1 \<le> x \<and> x \<le> 15 | _ \<Rightarrow> False)"

definition admissible :: "'a RawRow_scheme \<Rightarrow> bool" where
  "admissible row =
     ((case parseInt (Report_Year row) of
         Fin year \<Rightarrow> 2020 \<le> year \<and> year \<le> 2025
       | _ \<Rightarrow> False)
      \<and> (parseInt (Report_Half row) = Fin 1 \<or> parseInt (Report_Half row) = Fin 2)
      \<and> (case Sector row of None \<Rightarrow> False | Some s \<Rightarrow> 3 \<le> length s)
      \<and> (valid_cap_rate (H1_Low row) \<or> valid_cap_rate (H1_High row)
           \<or> valid_cap_rate (H2_Low row) \<or> valid_cap_rate (H2_High row)))"



text \<open>
  The chronological order of period keys: by numeric year, then by numeric half. It is
  defined on the keys whose two pieces are finite numbers.
\<close>

definition well_formed_key :: "string \<Rightarrow> bool" where
  "well_formed_key k =
     (case period_year k of
        Fin y \<Rightarrow> (case period_half k of Fin h \<Rightarrow> True | _ \<Rightarrow> False)
      | _ \<Rightarrow> False)"

definition chronological :: "string \<Rightarrow> string \<Rightarrow> bool" where
  "chronological a b =
     (case (period_year a, period_half a, period_year b, period_half b) of
        (Fin ya, Fin ha, Fin yb, Fin hb) \<Rightarrow> ya < yb \<or> (ya = yb \<and> ha \<le> hb)
      | _ \<Rightarrow> False)"

section \<open>Example rows\<close>

text \<open>
  Rows in the shape of the fixture of the unit tests. The last one is the first row of that
  fixture as it is written there, with the half given as \<open>H1\<close>.
\<close>

definition dallas_row :: RawRow where
  "dallas_row =
     \<lparr>Sector = Some ''Industrial'', Subsector = Some ''Warehouse'', Region = Some ''South'',
      Market = Some ''Dallas'', H1_Low = Some ''4.5'', H1_High = Some ''5.5'',
      H2_Low = Some ''4.2'', H2_High = Some ''5.2'', Report_Year = Some ''2024'',
      Report_Half = Some ''1''\<rparr>"

definition office_row :: RawRow where
  "office_row =
     \<lparr>Sector = Some ''Office'', Subsector = Some ''Class A'', Region = Some ''South'',
      Market = Some ''Dallas'', H1_Low = Some ''6.0'', H1_High = Some ''7.0'',
      H2_Low = Some '''', H2_High = Some '''', Report_Year = Some ''2023'',
      Report_Half = Some ''2''\<rparr>"

definition heading_row :: RawRow where
  "heading_row =
     \<lparr>Sector = Some ''Retail'', Subsector = Some ''Shopping Center'', Region = Some ''North'',
      Market = Some ''Market'', H1_Low = Some ''5.5'', H1_High = Some ''6.5'',
      H2_Low = Some ''5.2'', H2_High = Some ''6.2'', Report_Year = Some ''2024'',
      Report_Half = Some ''2''\<rparr>"

definition fixture_row :: RawRow where
  "fixture_row =
     \<lparr>Sector = Some ''Industrial'', Subsector = Some ''Warehouse'', Region = Some ''West'',
      Market = Some ''Los Angeles'', H1_Low = Some ''4.5'', H1_High = Some ''5.5'',
      H2_Low = Some ''4.2'', H2_High = Some ''5.2'', Report_Year = Some ''2024'',
      Report_Half = Some ''H1''\<rparr>"

section \<open>Properties\<close>

subsection \<open>Arithmetic on finite numbers\<close>

lemma Fin_minus [simp]: "Fin a - Fin b = Fin (a - b)"
  by (simp add: minus_number_def)

lemma strict_eq_Fin [simp]: "strict_eq (Fin a) (Fin b) = (a = b)"
  by (simp add: strict_eq_def)

lemma is_integer_of_nat [simp]: "is_integer (real n)"
  by (simp add: is_integer_def)

lemma Math_pow_nat: "0 < n \<Longrightarrow> Math_pow (Fin x) (Fin (real n)) = Fin (x ^ n)"
  by (simp add: Math_pow_def power_int_def)

subsection \<open>The metrics of a new deal\<close>

lemma calculate_new:
  "fst (calculate (new_DealModel pv noi loan rate years sofr)) =
     (let capRate = (noi / pv) * Fin 100;
          ltv = (loan / pv) * Fin 100;
          monthlyRate = (rate / Fin 100) / Fin 12;
          totalPayments = years * Fin 12;
          payment =
            (if strict_eq monthlyRate (Fin 0) then loan / totalPayments
             else loan * (monthlyRate * Math_pow (Fin 1 + monthlyRate) totalPayments)
                    / (Math_pow (Fin 1 + monthlyRate) totalPayments - Fin 1));
          debtService = payment * Fin 12
      in \<lparr>actualCapRate = capRate, actualLTV = ltv, dscr = noi / debtService,
          annualDebtService = debtService,
          debtConstant = (debtService / loan) * Fin 100,
          spread = (rate - sofr) * Fin 100,
          breakEvenNOI = debtService, monthlyPayment = payment\<rparr>)"
  by (simp add: calculate_def new_DealModel_def Let_def)

lemma calculate_cached:
  "calculations_cache m = Some c \<Longrightarrow> calculate m = (c, m)"
  by (simp add: calculate_def)

lemma calculate_twice: "calculate (snd (calculate m)) = calculate m"
  by (cases "calculations_cache m") (simp_all add: calculate_def Let_def)

subsection \<open>The credit decision\<close>

lemma getCreditDecision_tiers:
  "fst (getCreditDecision m) =
     (let c = fst (calculate m);
          d = dscr c; l = actualLTV c; r = actualCapRate c
      in if tier_STRONG_APPROVE d l r
         then \<lparr>decision = STRONG_APPROVE, color = ''#1ECD7D'', risk = ''LOW''\<rparr>
         else if tier_APPROVE d l r
         then \<lparr>decision = APPROVE, color = ''#1ECD7D'', risk = ''LOW''\<rparr>
         else if tier_CONDITIONAL d l r
         then \<lparr>decision = CONDITIONAL, color = ''#C17B42'', risk = ''MEDIUM''\<rparr>
         else if tier_REVIEW_REQUIRED d l r
         then \<lparr>decision = REVIEW_REQUIRED, color = ''#371CA1'', risk = ''HIGH''\<rparr>
         else if tier_HIGH_RISK d l r
         then \<lparr>decision = HIGH_RISK, color = ''#DC3545'', risk = ''VERY_HIGH''\<rparr>
         else \<lparr>decision = DECLINE, color = ''#DC3545'', risk = ''UNACCEPTABLE''\<rparr>)"
  by (simp add: getCreditDecision_def Let_def split: prod.split
      add: tier_STRONG_APPROVE_def tier_APPROVE_def tier_CONDITIONAL_def
        tier_REVIEW_REQUIRED_def tier_HIGH_RISK_def)

text \<open>
  C1. For the metrics \<open>(dscr, LTV, capRate)\<close> that \<open>calculate\<close> returns for a deal,
  \<open>getCreditDecision\<close> returns STRONG_APPROVE exactly when the first tier holds, and each
  later decision exactly when its tier holds and no earlier tier does; DECLINE exactly when
  no tier holds. So the six decisions are mutually exclusive and exhaustive, the first
  matching tier wins, and the thresholds are the closed ones of the table. The risk label
  is the one of the table, and metrics on the boundary \<open>dscr = 1.40\<close>, \<open>LTV = 70\<close>,
  \<open>capRate = 6.0\<close> give STRONG_APPROVE.
\<close>

theorem credit_decision_tiers:
  "(let c = fst (calculate m);
        d = dscr c; l = actualLTV c; r = actualCapRate c;
        result = fst (getCreditDecision m)
    in (decision result = STRONG_APPROVE) = tier_STRONG_APPROVE d l r
     \<and> (decision result = APPROVE) = (\<not> tier_STRONG_APPROVE d l r \<and> tier_APPROVE d l r)
     \<and> (decision result = CONDITIONAL) =
         (\<not> tier_STRONG_APPROVE d l r \<and> \<not> tier_APPROVE d l r \<and> tier_CONDITIONAL d l r)
     \<and> (decision result = REVIEW_REQUIRED) =
         (\<not> tier_STRONG_APPROVE d l r \<and> \<not> tier_APPROVE d l r \<and> \<not> tier_CONDITIONAL d l r
          \<and> tier_REVIEW_REQUIRED d l r)
     \<and> (decision result = HIGH_RISK) =
         (\<not> tier_STRONG_APPROVE d l r \<and> \<not> tier_APPROVE d l r \<and> \<not> tier_CONDITIONAL d l r
          \<and> \<not> tier_REVIEW_REQUIRED d l r \<and> tier_HIGH_RISK d l r)
     \<and> (decision result = DECLINE) =
         (\<not> tier_STRONG_APPROVE d l r \<and> \<not> tier_APPROVE d l r \<and> \<not> tier_CONDITIONAL d l r
          \<and> \<not> tier_REVIEW_REQUIRED d l r \<and> \<not> tier_HIGH_RISK d l r)
     \<and> risk result = tier_risk (decision result))
   \<and> decision (fst (getCreditDecision
        (m\<lparr>calculations_cache :=
             Some (c0\<lparr>dscr := Fin 1.40, actualLTV := Fin 70, actualCapRate := Fin 6.0\<rparr>)\<rparr>)))
       = STRONG_APPROVE"
proof -
  have boundary: "decision (fst (getCreditDecision
        (m\<lparr>calculations_cache :=
             Some (c0\<lparr>dscr := Fin 1.40, actualLTV := Fin 70, actualCapRate := Fin 6.0\<rparr>)\<rparr>)))
       = STRONG_APPROVE"
    by (simp add: getCreditDecision_tiers calculate_cached Let_def tier_STRONG_APPROVE_def)
  have tiers: "(let c = fst (calculate m);
        d = dscr c; l = actualLTV c; r = actualCapRate c;
        result = fst (getCreditDecision m)
    in (decision result = STRONG_APPROVE) = tier_STRONG_APPROVE d l r
     \<and> (decision result = APPROVE) = (\<not> tier_STRONG_APPROVE d l r \<and> tier_APPROVE d l r)
     \<and> (decision result = CONDITIONAL) =
         (\<not> tier_STRONG_APPROVE d l r \<and> \<not> tier_APPROVE d l r \<and> tier_CONDITIONAL d l r)
     \<and> (decision result = REVIEW_REQUIRED) =
         (\<not> tier_STRONG_APPROVE d l r \<and> \<not> tier_APPROVE d l r \<and> \<not> tier_CONDITIONAL d l r
          \<and> tier_REVIEW_REQUIRED d l r)
     \<and> (decision result = HIGH_RISK) =
         (\<not> tier_STRONG_APPROVE d l r \<and> \<not> tier_APPROVE d l r \<and> \<not> tier_CONDITIONAL d l r
          \<and> \<not> tier_REVIEW_REQUIRED d l r \<and> tier_HIGH_RISK d l r)
     \<and> (decision result = DECLINE) =
         (\<not> tier_STRONG_APPROVE d l r \<and> \<not> tier_APPROVE d l r \<and> \<not> tier_CONDITIONAL d l r
          \<and> \<not> tier_REVIEW_REQUIRED d l r \<and> \<not> tier_HIGH_RISK d l r)
     \<and> risk result = tier_risk (decision result))"
    by (simp add: getCreditDecision_tiers Let_def)
  from tiers boundary show ?thesis by (rule conjI)
qed

subsection \<open>The monthly payment\<close>



subsection \<open>Rounding to the nearest double\<close>

text \<open>Rounding is monotone on the reals that are not negative, and it keeps a double.\<close>

lemma rhe_int [simp]: "round_half_even (of_int n) = n"
  by (simp add: round_half_even_def)

lemma rhe_mono: "q \<le> q' \<Longrightarrow> round_half_even q \<le> round_half_even q'"
proof -
  assume le: "q \<le> q'"
  then have fl: "\<lfloor>q\<rfloor> \<le> \<lfloor>q'\<rfloor>" by (rule floor_mono)
  show ?thesis
  proof (cases "\<lfloor>q\<rfloor> = \<lfloor>q'\<rfloor>")
    case True
    with le show ?thesis by (auto simp add: round_half_even_def Let_def)
  next
    case False
    with fl have "\<lfloor>q\<rfloor> + 1 \<le> \<lfloor>q'\<rfloor>" by simp
    moreover have "round_half_even q \<le> \<lfloor>q\<rfloor> + 1" by (simp add: round_half_even_def Let_def)
    moreover have "\<lfloor>q'\<rfloor> \<le> round_half_even q'" by (simp add: round_half_even_def Let_def)
    ultimately show ?thesis by linarith
  qed
qed

lemma rhe_between:
  assumes "of_int a \<le> q" and "q \<le> of_int b"
  shows "a \<le> round_half_even q \<and> round_half_even q \<le> b"
  using rhe_mono [OF assms(1)] rhe_mono [OF assms(2)] by simp

lemma rhe_near:
  assumes "of_int n \<le> q" and "q < of_int n + 1 / 2"
  shows "round_half_even q = n"
proof -
  from assms have "\<lfloor>q\<rfloor> = n" by (simp add: floor_eq_iff)
  with assms show ?thesis by (simp add: round_half_even_def)
qed

lemma two_powi_pos [simp]: "0 < (2::real) powi e"
  by (simp add: power_int_def)

lemma two_powi_mono: "a \<le> b \<Longrightarrow> (2::real) powi a \<le> 2 powi b"
  by (rule power_int_increasing) simp_all

lemma two_powi_split: "(2::real) powi (a + b) = 2 powi a * 2 powi b"
  by (rule power_int_add) simp

lemma floor_log2_iff:
  assumes "0 < x"
  shows "(\<lfloor>log 2 x\<rfloor> = k) = (2 powi k \<le> x \<and> x < 2 powi (k + 1))"
proof -
  have "(2::real) powr real_of_int k = 2 powi k" "(2::real) powr real_of_int (k + 1) = 2 powi (k + 1)"
    by (rule powr_real_of_int'; simp)+
  with floor_log_eq_powr_iff [OF assms, of 2 k] show ?thesis by simp
qed

lemma ulp_exponent_normal:
  assumes "2 powi e \<le> \<bar>x\<bar>" and "\<bar>x\<bar> < 2 powi (e + 1)" and "- 1022 \<le> e"
  shows "ulp_exponent x = e - 52"
proof -
  from assms(3) have "(2::real) powi (- 1022) \<le> 2 powi e" by (rule two_powi_mono)
  with assms(1) have big: "\<not> \<bar>x\<bar> < 2 powi (- 1022)" by linarith
  have pos: "0 < \<bar>x\<bar>" using assms(1) two_powi_pos [of e] by linarith
  have "\<lfloor>log 2 \<bar>x\<bar>\<rfloor> = e"
    using assms(1,2) by (simp only: floor_log2_iff [OF pos])
  with big show ?thesis by (simp add: ulp_exponent_def)
qed

lemma ulp_exponent_subnormal: "\<bar>x\<bar> < 2 powi (- 1022) \<Longrightarrow> ulp_exponent x = - 1074"
  by (simp add: ulp_exponent_def)

lemma ulp_exponent_bounds:
  assumes "2 powi (- 1022) \<le> \<bar>x\<bar>"
  shows "2 powi (ulp_exponent x + 52) \<le> \<bar>x\<bar> \<and> \<bar>x\<bar> < 2 powi (ulp_exponent x + 53)
       \<and> - 1074 \<le> ulp_exponent x"
proof -
  have pos: "0 < \<bar>x\<bar>" using assms two_powi_pos [of "- 1022"] by linarith
  define e where "e = \<lfloor>log 2 \<bar>x\<bar>\<rfloor>"
  have ue: "ulp_exponent x = e - 52" using assms by (simp add: ulp_exponent_def e_def)
  from e_def [symmetric] have b: "2 powi e \<le> \<bar>x\<bar>" "\<bar>x\<bar> < 2 powi (e + 1)"
    by (simp_all only: floor_log2_iff [OF pos])
  have "- 1022 \<le> e"
  proof (rule ccontr)
    assume "\<not> - 1022 \<le> e"
    then have "e + 1 \<le> - 1022" by simp
    then have "(2::real) powi (e + 1) \<le> 2 powi (- 1022)" by (rule two_powi_mono)
    with b(2) assms show False by linarith
  qed
  with b ue show ?thesis by (simp add: add.commute)
qed

lemma nearest64_normal:
  assumes "2 powi (- 1022) \<le> x"
  shows "2 powi (ulp_exponent x + 52) \<le> nearest64 x
       \<and> nearest64 x \<le> 2 powi (ulp_exponent x + 53)"
proof -
  define u where "u = ulp_exponent x"
  have pos: "0 < x" using assms two_powi_pos [of "- 1022"] by linarith
  then have abs: "\<bar>x\<bar> = x" by simp
  from ulp_exponent_bounds [of x] assms abs
  have b: "2 powi (u + 52) \<le> x" "x < 2 powi (u + 53)" by (simp_all add: u_def)
  have "of_int (2 ^ 52) \<le> x / 2 powi u"
    using b(1) by (simp add: two_powi_split pos_le_divide_eq mult.commute)
  moreover have "x / 2 powi u \<le> of_int (2 ^ 53)"
    using b(2) by (simp add: two_powi_split pos_divide_le_eq mult.commute)
  ultimately have "2 ^ 52 \<le> round_half_even (x / 2 powi u)"
    and "round_half_even (x / 2 powi u) \<le> 2 ^ 53"
    using rhe_between by blast+
  then have "real_of_int (2 ^ 52) \<le> of_int (round_half_even (x / 2 powi u))"
    and "of_int (round_half_even (x / 2 powi u)) \<le> real_of_int (2 ^ 53)"
    by (simp_all only: of_int_le_iff)
  then have "(2::real) ^ 52 \<le> of_int (round_half_even (x / 2 powi u))"
    and "of_int (round_half_even (x / 2 powi u)) \<le> (2::real) ^ 53"
    by simp_all
  then have "2 ^ 52 * (2::real) powi u \<le> of_int (round_half_even (x / 2 powi u)) * 2 powi u"
    and "of_int (round_half_even (x / 2 powi u)) * 2 powi u \<le> 2 ^ 53 * (2::real) powi u"
    by (simp_all add: mult_right_mono)
  then show ?thesis
    by (simp add: nearest64_def Let_def u_def [symmetric] two_powi_split mult.commute)
qed

lemma nearest64_subnormal:
  assumes "0 \<le> x" and "x < 2 powi (- 1022)"
  shows "0 \<le> nearest64 x \<and> nearest64 x \<le> 2 powi (- 1022)"
proof -
  from assms have u: "ulp_exponent x = - 1074" by (simp add: ulp_exponent_def)
  have split: "(2::real) powi (- 1022) = 2 ^ 52 * 2 powi (- 1074)"
    using two_powi_split [of 52 "- 1074"] by simp
  have "of_int 0 \<le> x / 2 powi (- 1074)" using assms(1) by simp
  moreover have "x / 2 powi (- 1074) \<le> of_int (2 ^ 52)"
    using assms(2) unfolding split by (simp add: pos_divide_le_eq)
  ultimately have "0 \<le> round_half_even (x / 2 powi (- 1074))"
    and "round_half_even (x / 2 powi (- 1074)) \<le> 2 ^ 52"
    using rhe_between by blast+
  then have "real_of_int 0 \<le> of_int (round_half_even (x / 2 powi (- 1074)))"
    and "of_int (round_half_even (x / 2 powi (- 1074))) \<le> real_of_int (2 ^ 52)"
    by (simp_all only: of_int_le_iff)
  then have "(0::real) \<le> of_int (round_half_even (x / 2 powi (- 1074)))"
    and "of_int (round_half_even (x / 2 powi (- 1074))) \<le> (2::real) ^ 52"
    by simp_all
  then have "0 \<le> of_int (round_half_even (x / 2 powi (- 1074))) * (2::real) powi (- 1074)"
    and "of_int (round_half_even (x / 2 powi (- 1074))) * 2 powi (- 1074)
           \<le> 2 ^ 52 * (2::real) powi (- 1074)"
    by (simp_all add: mult_right_mono)
  then show ?thesis
    unfolding split by (simp add: nearest64_def Let_def u)
qed

lemma nearest64_same_exponent:
  assumes "x \<le> y" and "ulp_exponent x = ulp_exponent y"
  shows "nearest64 x \<le> nearest64 y"
proof -
  have "x / 2 powi ulp_exponent y \<le> y / 2 powi ulp_exponent y"
    using assms(1) by (simp add: divide_right_mono)
  from rhe_mono [OF this] show ?thesis
    by (simp add: nearest64_def Let_def assms(2) mult_right_mono)
qed

lemma nearest64_mono:
  assumes "0 \<le> x" and "x \<le> y"
  shows "nearest64 x \<le> nearest64 y"
proof (cases "y < 2 powi (- 1022)")
  case True
  with assms have "ulp_exponent x = ulp_exponent y" by (simp add: ulp_exponent_def)
  with assms(2) show ?thesis by (rule nearest64_same_exponent)
next
  case False
  then have y: "2 powi (- 1022) \<le> y" by simp
  from nearest64_normal [OF y] have ylow: "2 powi (ulp_exponent y + 52) \<le> nearest64 y" by simp
  from ulp_exponent_bounds [of y] y assms
  have yb: "y < 2 powi (ulp_exponent y + 53)" "- 1074 \<le> ulp_exponent y" by simp_all
  show ?thesis
  proof (cases "x < 2 powi (- 1022)")
    case True
    with assms(1) have "nearest64 x \<le> 2 powi (- 1022)" using nearest64_subnormal by blast
    also have "\<dots> \<le> 2 powi (ulp_exponent y + 52)" using yb(2) by (intro two_powi_mono) simp
    finally show ?thesis using ylow by linarith
  next
    case False
    then have x: "2 powi (- 1022) \<le> x" by simp
    from ulp_exponent_bounds [of x] x assms
    have xb: "2 powi (ulp_exponent x + 52) \<le> x" by simp
    show ?thesis
    proof (cases "ulp_exponent x = ulp_exponent y")
      case True
      with assms(2) show ?thesis by (rule nearest64_same_exponent)
    next
      case False
      have "ulp_exponent x + 52 < ulp_exponent y + 53"
      proof (rule ccontr)
        assume "\<not> ulp_exponent x + 52 < ulp_exponent y + 53"
        then have "(2::real) powi (ulp_exponent y + 53) \<le> 2 powi (ulp_exponent x + 52)"
          by (intro two_powi_mono) simp
        with xb yb(1) assms(2) show False by linarith
      qed
      with False have "ulp_exponent x + 53 \<le> ulp_exponent y + 52" by simp
      then have "(2::real) powi (ulp_exponent x + 53) \<le> 2 powi (ulp_exponent y + 52)"
        by (rule two_powi_mono)
      with nearest64_normal [OF x] ylow show ?thesis by linarith
    qed
  qed
qed

lemma nearest64_nonneg: "0 \<le> x \<Longrightarrow> 0 \<le> nearest64 x"
  using nearest64_normal [of x] nearest64_subnormal [of x] two_powi_pos [of "ulp_exponent x + 52"]
  by (cases "x < 2 powi (- 1022)") (simp, linarith)

lemma nearest64_zero [simp]: "nearest64 0 = 0"
  by (simp add: nearest64_def round_half_even_def)

lemma binary64_zero [simp]: "binary64 0 = Fin 0"
  by (simp add: binary64_def)

lemma binary64_mono:
  assumes "0 \<le> x" and "x \<le> y"
  shows "Fin 0 \<le> binary64 x \<and> binary64 x \<le> binary64 y"
  using nearest64_mono [OF assms] nearest64_nonneg [OF assms(1)]
  by (simp add: binary64_def Let_def)

lemma binary64_not_NaN [simp]: "binary64 x \<noteq> NaN"
  by (simp add: binary64_def Let_def)

lemma binary64_normal:
  assumes "2 ^ 52 \<le> n" and "n < 2 ^ 53" and "- 1022 \<le> e" and "e \<le> 1023"
  shows "binary64 (of_int n * 2 powi (e - 52)) = Fin (of_int n * 2 powi (e - 52))"
proof -
  let ?x = "real_of_int n * 2 powi (e - 52)"
  from assms(1,2) have "real_of_int (2 ^ 52) \<le> of_int n" "real_of_int n < real_of_int (2 ^ 53)"
    by (simp_all only: of_int_le_iff of_int_less_iff)
  then have n: "(2::real) ^ 52 \<le> of_int n" "real_of_int n < 2 ^ 53" by simp_all
  have "(0::real) < 2 ^ 52" by simp
  from this n(1) have pos: "0 < real_of_int n" by (rule less_le_trans)
  have e: "(2::real) powi e = 2 ^ 52 * 2 powi (e - 52)"
    and e1: "(2::real) powi (e + 1) = 2 ^ 53 * 2 powi (e - 52)"
    using two_powi_split [of 52 "e - 52"] two_powi_split [of 53 "e - 52"]
    by (simp_all add: add.commute)
  have abs: "\<bar>?x\<bar> = ?x" using pos by simp
  have "2 powi e \<le> \<bar>?x\<bar>" "\<bar>?x\<bar> < 2 powi (e + 1)"
    unfolding abs e e1 using n by simp_all
  from ulp_exponent_normal [OF this assms(3)] have u: "ulp_exponent ?x = e - 52" .
  have near: "nearest64 ?x = ?x" by (simp add: nearest64_def Let_def u)
  have "?x < 2 ^ 53 * 2 powi (e - 52)" using n by simp
  also have "\<dots> = 2 powi (e + 1)" by (simp only: e1)
  also have "\<dots> \<le> 2 powi 1024" using assms(4) by (intro two_powi_mono) simp
  finally have "?x < 2 ^ 1024" by simp
  moreover have "0 < ?x" using pos by simp
  ultimately show ?thesis by (simp add: binary64_def Let_def near)
qed

lemma binary64_one [simp]: "binary64 1 = Fin 1"
  using binary64_normal [of "2 ^ 52" 0] by simp

lemma binary64_power_of_two:
  assumes "- 1022 \<le> e" and "e \<le> 1023"
  shows "binary64 (2 powi e) = Fin (2 powi e)"
proof -
  have "(2::real) powi e = of_int (2 ^ 52) * 2 powi (e - 52)"
    using two_powi_split [of 52 "e - 52"] by simp
  with binary64_normal [of "2 ^ 52" e] assms show ?thesis by simp
qed

lemma inverse_power_of_two: "1 / 2 ^ k = (2::real) powi (- int k)"
  by (simp add: power_int_minus field_simps)

lemma binary64_inverse_power_of_two:
  "k \<le> 1022 \<Longrightarrow> binary64 (1 / 2 ^ k) = Fin (1 / 2 ^ k)"
  unfolding inverse_power_of_two by (rule binary64_power_of_two) simp_all

lemma binary64_between:
  assumes "0 \<le> lo" and "lo \<le> x" and "x \<le> hi"
    and "binary64 lo = Fin l" and "binary64 hi = Fin h"
  shows "\<exists>y. binary64 x = Fin y \<and> l \<le> y \<and> y \<le> h"
proof -
  from assms(1,2) have "0 \<le> x" by simp
  from binary64_mono [OF assms(1,2)] binary64_mono [OF this assms(3)] assms(4,5)
  show ?thesis by (cases "binary64 x") simp_all
qed

lemma binary64_above_one: "binary64 (1 + 1 / 2 ^ 55) = Fin 1"
proof -
  let ?x = "1 + 1 / 2 ^ 55 :: real"
  have "ulp_exponent ?x = 0 - 52"
    by (rule ulp_exponent_normal) simp_all
  then have u: "ulp_exponent ?x = - 52" by simp
  have q: "?x / 2 powi (- 52) = 2 ^ 52 + 1 / 8"
    by (simp add: power_int_minus field_simps)
  have "round_half_even (2 ^ 52 + 1 / 8) = 2 ^ 52"
    by (rule rhe_near) simp_all
  then have "nearest64 ?x = 1"
    unfolding nearest64_def Let_def u q by (simp add: power_int_minus)
  then show ?thesis by (simp add: binary64_def Let_def)
qed

lemma binary64_300: "binary64 300 = Fin 300"
proof -
  have n: "(2::int) ^ 52 \<le> 300 * 2 ^ 44" "(300::int) * 2 ^ 44 < 2 ^ 53" by simp_all
  have e: "- 1022 \<le> (8::int)" "(8::int) \<le> 1023" by simp_all
  have p: "(2::real) powi (8 - 52) = 1 / 2 ^ 44"
    by (simp add: power_int_minus field_simps)
  have x: "real_of_int (300 * 2 ^ 44) * (1 / 2 ^ 44) = 300" by simp
  from binary64_normal [OF n e] show ?thesis unfolding p x .
qed

lemma round64_simps [simp]:
  "round64 (Fin x) = binary64 x" "round64 PosInf = PosInf" "round64 NegInf = NegInf"
  "round64 NaN = NaN"
  by (simp_all add: round64_def)

lemma round64_NaN [simp]: "(round64 a = NaN) = (a = NaN)"
  by (cases a) simp_all

lemma round64_mono:
  assumes "Fin 0 \<le> a" and "a \<le> b"
  shows "Fin 0 \<le> round64 a \<and> round64 a \<le> round64 b"
proof (cases a)
  case (Fin x)
  with assms(1) have x: "0 \<le> x" by simp
  show ?thesis
  proof (cases b)
    case (Fin y)
    with assms(2) \<open>a = Fin x\<close> have "x \<le> y" by simp
    from binary64_mono [OF x this] show ?thesis using Fin \<open>a = Fin x\<close> by simp
  next
    case PosInf
    from binary64_mono [OF x order_refl] show ?thesis
      using PosInf \<open>a = Fin x\<close> by (cases "binary64 x") simp_all
  qed (use assms Fin in simp_all)
qed (use assms in \<open>cases b; simp\<close>)+

lemma round64_nonneg: "Fin 0 \<le> a \<Longrightarrow> Fin 0 \<le> round64 a"
  using round64_mono [of a a] by (cases a) simp_all

lemma round64_ge_one: "Fin 1 \<le> a \<Longrightarrow> Fin 1 \<le> round64 a"
  using round64_mono [of "Fin 1" a] by simp

subsection \<open>The coverage ratio and the loan amount\<close>

lemma calculate_exact: "calculate m = calculate_rounded (\<lambda>x. x) m"
  by (simp add: calculate_def calculate_rounded_def)

lemma dscr_binary64_new:
  "dscr (fst (calculate_binary64 (new_DealModel pv noi loan rate years sofr))) =
     (let monthlyRate = round64 (round64 (rate / Fin 100) / Fin 12);
          totalPayments = round64 (years * Fin 12);
          payment =
            (if strict_eq monthlyRate (Fin 0) then round64 (loan / totalPayments)
             else round64 (round64 (loan *
                        round64 (monthlyRate *
                            round64 (Math_pow (round64 (Fin 1 + monthlyRate)) totalPayments)))
                    / round64 (round64 (Math_pow (round64 (Fin 1 + monthlyRate)) totalPayments)
                               - Fin 1)))
      in round64 (noi / round64 (payment * Fin 12)))"
  by (simp add: calculate_binary64_def calculate_rounded_def new_DealModel_def Let_def)

text \<open>
  Each step from the loan amount to the debt service keeps the order of two values that
  are not negative, or makes one of them \<open>NaN\<close>; the last step, the division of the income
  by the debt service, reverses it.
\<close>

lemma times_step:
  assumes "a = NaN \<or> b = NaN \<or> (Fin 0 \<le> a \<and> a \<le> b)" and "c = NaN \<or> Fin 0 \<le> c"
  shows "round64 (a * c) = NaN \<or> round64 (b * c) = NaN
       \<or> (Fin 0 \<le> round64 (a * c) \<and> round64 (a * c) \<le> round64 (b * c))"
proof (cases "a * c = NaN \<or> b * c = NaN")
  case True
  then show ?thesis by auto
next
  case False
  then have n: "a \<noteq> NaN" "b \<noteq> NaN" "c \<noteq> NaN" by (auto; cases a; cases b; simp)+
  with assms have le: "Fin 0 \<le> a" "a \<le> b" "Fin 0 \<le> c" by auto
  with False have "Fin 0 \<le> a * c \<and> a * c \<le> b * c"
    by (cases a; cases b; cases c) (auto simp add: mult_right_mono split: if_splits)
  then show ?thesis using round64_mono by blast
qed

lemma divide_step:
  assumes "a = NaN \<or> b = NaN \<or> (Fin 0 \<le> a \<and> a \<le> b)" and "d = NaN \<or> Fin 0 \<le> d"
  shows "round64 (a / d) = NaN \<or> round64 (b / d) = NaN
       \<or> (Fin 0 \<le> round64 (a / d) \<and> round64 (a / d) \<le> round64 (b / d))"
proof (cases "a / d = NaN \<or> b / d = NaN")
  case True
  then show ?thesis by auto
next
  case False
  then have n: "a \<noteq> NaN" "b \<noteq> NaN" "d \<noteq> NaN" by (auto; cases a; cases b; simp)+
  with assms have le: "Fin 0 \<le> a" "a \<le> b" "Fin 0 \<le> d" by auto
  with False have "Fin 0 \<le> a / d \<and> a / d \<le> b / d"
    by (cases a; cases b; cases d) (auto simp add: divide_right_mono split: if_splits)
  then show ?thesis using round64_mono by blast
qed

lemma ratio_step:
  assumes "a = NaN \<or> b = NaN \<or> (Fin 0 \<le> a \<and> a \<le> b)" and "0 < noi"
  shows "round64 (Fin noi / a) = NaN \<or> round64 (Fin noi / b) = NaN
       \<or> round64 (Fin noi / b) \<le> round64 (Fin noi / a)"
proof (cases "a = NaN \<or> b = NaN")
  case True
  then show ?thesis by auto
next
  case False
  with assms have le: "Fin 0 \<le> a" "a \<le> b" by auto
  with assms(2) have "Fin 0 \<le> Fin noi / b \<and> Fin noi / b \<le> Fin noi / a"
    by (cases a; cases b) (auto simp add: frac_le split: if_splits)
  then show ?thesis using round64_mono by blast
qed

lemma Math_pow_ge_one:
  assumes "Fin 1 \<le> base" and "Fin 0 \<le> exponent"
  shows "Math_pow base exponent = NaN \<or> Fin 1 \<le> Math_pow base exponent"
proof (cases exponent)
  case (Fin y)
  with assms(2) have y: "0 \<le> y" by simp
  show ?thesis
  proof (cases base)
    case (Fin x)
    with assms(1) have x: "1 \<le> x" by simp
    then have "1 \<le> x powi \<lfloor>y\<rfloor>" using y by (simp add: one_le_power_int)
    moreover have "1 \<le> x powr y" using x y by (rule ge_one_powr_ge_zero)
    ultimately show ?thesis
      using x y \<open>exponent = Fin y\<close> Fin by (simp add: Math_pow_def)
  qed (use assms y Fin in \<open>simp_all add: Math_pow_def\<close>)
next
  case PosInf
  with assms(1) show ?thesis by (cases base) (auto simp add: Math_pow_def)
qed (use assms in simp_all)

lemma dscr_binary64_weakly_decreasing:
  assumes "0 < noi" and "0 \<le> rate" and "0 < years" and "0 < L1" and "L1 < L2"
  shows "dscr (fst (calculate_binary64
           (new_DealModel pv (Fin noi) (Fin L1) (Fin rate) (Fin years) sofr))) = NaN
       \<or> dscr (fst (calculate_binary64
           (new_DealModel pv (Fin noi) (Fin L2) (Fin rate) (Fin years) sofr))) = NaN
       \<or> dscr (fst (calculate_binary64
           (new_DealModel pv (Fin noi) (Fin L2) (Fin rate) (Fin years) sofr)))
         \<le> dscr (fst (calculate_binary64
           (new_DealModel pv (Fin noi) (Fin L1) (Fin rate) (Fin years) sofr)))"
proof -
  define monthlyRate where "monthlyRate = round64 (round64 (Fin rate / Fin 100) / Fin 12)"
  define totalPayments where "totalPayments = round64 (Fin years * Fin 12)"
  define compound where "compound = round64 (Math_pow (round64 (Fin 1 + monthlyRate)) totalPayments)"
  define factor where "factor = round64 (monthlyRate * compound)"
  define divisor where "divisor = round64 (compound - Fin 1)"
  define payment where "payment = (\<lambda>loan.
     if strict_eq monthlyRate (Fin 0) then round64 (Fin loan / totalPayments)
     else round64 (round64 (Fin loan * factor) / divisor))"
  have ratio: "dscr (fst (calculate_binary64
           (new_DealModel pv (Fin noi) (Fin loan) (Fin rate) (Fin years) sofr))) =
        round64 (Fin noi / round64 (payment loan * Fin 12))" for loan
    unfolding dscr_binary64_new Let_def payment_def divisor_def factor_def compound_def
      totalPayments_def monthlyRate_def ..
  from assms(2) have "Fin 0 \<le> round64 (Fin rate / Fin 100)"
    by (intro round64_nonneg) simp
  then have "Fin 0 \<le> round64 (Fin rate / Fin 100) / Fin 12"
    by (cases "round64 (Fin rate / Fin 100)") simp_all
  then have rate0: "Fin 0 \<le> monthlyRate"
    unfolding monthlyRate_def by (rule round64_nonneg)
  then have "Fin 1 \<le> Fin 1 + monthlyRate" by (cases monthlyRate) simp_all
  then have base: "Fin 1 \<le> round64 (Fin 1 + monthlyRate)" by (rule round64_ge_one)
  from assms(3) have total: "Fin 0 \<le> totalPayments"
    unfolding totalPayments_def by (intro round64_nonneg) simp
  from Math_pow_ge_one [OF base total] have compound: "compound = NaN \<or> Fin 1 \<le> compound"
    unfolding compound_def using round64_ge_one by auto
  have factor: "factor = NaN \<or> Fin 0 \<le> factor"
  proof (cases "monthlyRate * compound = NaN")
    case True
    then show ?thesis by (simp add: factor_def)
  next
    case False
    with compound rate0 have "Fin 0 \<le> monthlyRate * compound"
      by (cases monthlyRate; cases compound) (auto split: if_splits)
    then show ?thesis unfolding factor_def by (intro disjI2 round64_nonneg)
  qed
  have divisor: "divisor = NaN \<or> Fin 0 \<le> divisor"
  proof (cases "compound = NaN")
    case True
    then show ?thesis by (simp add: divisor_def minus_number_def)
  next
    case False
    with compound have "Fin 0 \<le> compound - Fin 1"
      by (cases compound) (simp_all add: minus_number_def)
    then show ?thesis unfolding divisor_def by (intro disjI2 round64_nonneg)
  qed
  from assms(4,5) have loans: "Fin L1 = NaN \<or> Fin L2 = NaN \<or> (Fin 0 \<le> Fin L1 \<and> Fin L1 \<le> Fin L2)"
    by simp
  have payments: "payment L1 = NaN \<or> payment L2 = NaN
      \<or> (Fin 0 \<le> payment L1 \<and> payment L1 \<le> payment L2)"
  proof (cases "strict_eq monthlyRate (Fin 0)")
    case True
    from divide_step [OF loans, of totalPayments] total True show ?thesis
      by (simp add: payment_def)
  next
    case False
    from divide_step [OF times_step [OF loans factor] divisor] False show ?thesis
      by (simp add: payment_def)
  qed
  have "round64 (payment L1 * Fin 12) = NaN \<or> round64 (payment L2 * Fin 12) = NaN
      \<or> (Fin 0 \<le> round64 (payment L1 * Fin 12)
          \<and> round64 (payment L1 * Fin 12) \<le> round64 (payment L2 * Fin 12))"
    using payments by (rule times_step) simp
  from ratio_step [OF this assms(1)] show ?thesis
    by (simp only: ratio)
qed

lemma not_less_number: "a = NaN \<or> b = NaN \<or> b \<le> a \<Longrightarrow> \<not> (a::number) < b"
  by (cases a; cases b) auto

text \<open>
  At an annual rate between \<open>2\<close> to the \<open>-47\<close> and \<open>2\<close> to the \<open>-46\<close> percent the
  monthly rate is positive and at most \<open>2\<close> to the \<open>-55\<close>, so \<open>1 + monthlyRate\<close> rounds to
  1. The power is then 1 and the divisor \<open>1 - 1\<close> is 0: the payment is infinite and the
  coverage ratio 0, whatever the loan amount.
\<close>

lemma dscr_zero_at_tiny_rate:
  assumes "1 / 2 ^ 47 \<le> r" and "r \<le> 1 / 2 ^ 46" and "1 \<le> L" and "L \<le> 2 ^ 20"
  shows "dscr (fst (calculate_binary64
           (new_DealModel pv (Fin noi) (Fin L) (Fin r) (Fin 25) sofr))) = Fin 0"
proof -
  have "\<exists>a. binary64 (r / 100) = Fin a \<and> 1 / 2 ^ 54 \<le> a \<and> a \<le> 1 / 2 ^ 52"
  proof (rule binary64_between)
    show "1 / 2 ^ 54 \<le> r / 100" using assms(1) by simp
    show "r / 100 \<le> 1 / 2 ^ 52" using assms(2) by simp
    show "binary64 (1 / 2 ^ 54) = Fin (1 / 2 ^ 54)"
      by (rule binary64_inverse_power_of_two) simp
    show "binary64 (1 / 2 ^ 52) = Fin (1 / 2 ^ 52)"
      by (rule binary64_inverse_power_of_two) simp
  qed simp
  then obtain a where a: "binary64 (r / 100) = Fin a" "1 / 2 ^ 54 \<le> a" "a \<le> 1 / 2 ^ 52"
    by blast
  have "\<exists>m. binary64 (a / 12) = Fin m \<and> 1 / 2 ^ 58 \<le> m \<and> m \<le> 1 / 2 ^ 55"
  proof (rule binary64_between)
    show "1 / 2 ^ 58 \<le> a / 12" using a(2) by simp
    show "a / 12 \<le> 1 / 2 ^ 55" using a(3) by simp
    show "binary64 (1 / 2 ^ 58) = Fin (1 / 2 ^ 58)"
      by (rule binary64_inverse_power_of_two) simp
    show "binary64 (1 / 2 ^ 55) = Fin (1 / 2 ^ 55)"
      by (rule binary64_inverse_power_of_two) simp
  qed simp
  then obtain m where m: "binary64 (a / 12) = Fin m" "1 / 2 ^ 58 \<le> m" "m \<le> 1 / 2 ^ 55"
    by blast
  have "0 < 1 / (2::real) ^ 58" by simp
  from this m(2) have mpos: "0 < m" by (rule less_le_trans)
  have "\<exists>b. binary64 (1 + m) = Fin b \<and> 1 \<le> b \<and> b \<le> 1"
  proof (rule binary64_between)
    show "1 \<le> 1 + m" using mpos by simp
    show "1 + m \<le> 1 + 1 / 2 ^ 55" using m(3) by simp
    show "binary64 1 = Fin 1" by simp
    show "binary64 (1 + 1 / 2 ^ 55) = Fin 1" by (rule binary64_above_one)
  qed simp
  then have base: "binary64 (1 + m) = Fin 1" by auto
  have compound: "Math_pow (Fin 1) (Fin 300) = Fin 1"
    using Math_pow_nat [of 300 1] by simp
  have "\<exists>f. binary64 m = Fin f \<and> 1 / 2 ^ 58 \<le> f \<and> f \<le> 1 / 2 ^ 55"
  proof (rule binary64_between)
    show "1 / 2 ^ 58 \<le> m" by (rule m(2))
    show "m \<le> 1 / 2 ^ 55" by (rule m(3))
    show "binary64 (1 / 2 ^ 58) = Fin (1 / 2 ^ 58)"
      by (rule binary64_inverse_power_of_two) simp
    show "binary64 (1 / 2 ^ 55) = Fin (1 / 2 ^ 55)"
      by (rule binary64_inverse_power_of_two) simp
  qed simp
  then obtain f where f: "binary64 m = Fin f" "1 / 2 ^ 58 \<le> f" "f \<le> 1 / 2 ^ 55"
    by blast
  from \<open>0 < 1 / (2::real) ^ 58\<close> f(2) have fpos: "0 < f" by (rule less_le_trans)
  have "\<exists>t. binary64 (L * f) = Fin t \<and> 1 / 2 ^ 58 \<le> t \<and> t \<le> 1 / 2 ^ 35"
  proof (rule binary64_between)
    have "1 * (1 / 2 ^ 58) \<le> L * f"
      using assms(3) f(2) by (intro mult_mono) simp_all
    then show "1 / 2 ^ 58 \<le> L * f" by simp
    have "L * f \<le> 2 ^ 20 * (1 / 2 ^ 55)"
      using assms(3,4) f(3) fpos by (intro mult_mono) simp_all
    then show "L * f \<le> 1 / 2 ^ 35" by simp
    show "binary64 (1 / 2 ^ 58) = Fin (1 / 2 ^ 58)"
      by (rule binary64_inverse_power_of_two) simp
    show "binary64 (1 / 2 ^ 35) = Fin (1 / 2 ^ 35)"
      by (rule binary64_inverse_power_of_two) simp
  qed simp
  then obtain t where t: "binary64 (L * f) = Fin t" "1 / 2 ^ 58 \<le> t" by blast
  from \<open>0 < 1 / (2::real) ^ 58\<close> t(2) have tpos: "0 < t" by (rule less_le_trans)
  from mpos tpos show ?thesis
    by (simp add: dscr_binary64_new Let_def a m base binary64_300 compound f t strict_eq_def
        minus_number_def)
qed

text \<open>
  C10, as the specification states it, fails: at the positive rate \<open>1e-14\<close> percent, with
  25 years of amortization, the coverage ratio that \<open>calculate\<close> computes on doubles is 0
  for a loan of 700000 and for a loan of 750000 alike. It is not strictly less for the
  larger loan, and it is unchanged at a rate that is not zero.
\<close>

theorem dscr_unchanged_at_positive_rate:
  "Fin 0 < binary64 (1 / 10 ^ 14)
   \<and> dscr (fst (calculate_binary64 (new_DealModel (Fin 1000000) (Fin 80000) (Fin 700000)
        (binary64 (1 / 10 ^ 14)) (Fin 25) (binary64 (42 / 10))))) = Fin 0
   \<and> dscr (fst (calculate_binary64 (new_DealModel (Fin 1000000) (Fin 80000) (Fin 750000)
        (binary64 (1 / 10 ^ 14)) (Fin 25) (binary64 (42 / 10))))) = Fin 0"
proof -
  have "\<exists>r. binary64 (1 / 10 ^ 14) = Fin r \<and> 1 / 2 ^ 47 \<le> r \<and> r \<le> 1 / 2 ^ 46"
  proof (rule binary64_between)
    show "1 / 2 ^ 47 \<le> 1 / (10::real) ^ 14" by simp
    show "1 / (10::real) ^ 14 \<le> 1 / 2 ^ 46" by simp
    show "binary64 (1 / 2 ^ 47) = Fin (1 / 2 ^ 47)"
      by (rule binary64_inverse_power_of_two) simp
    show "binary64 (1 / 2 ^ 46) = Fin (1 / 2 ^ 46)"
      by (rule binary64_inverse_power_of_two) simp
  qed simp
  then obtain r where r: "binary64 (1 / 10 ^ 14) = Fin r" "1 / 2 ^ 47 \<le> r" "r \<le> 1 / 2 ^ 46"
    by blast
  have "0 < 1 / (2::real) ^ 47" by simp
  from this r(2) have "0 < r" by (rule less_le_trans)
  moreover have "dscr (fst (calculate_binary64 (new_DealModel (Fin 1000000) (Fin 80000)
      (Fin 700000) (Fin r) (Fin 25) (binary64 (42 / 10))))) = Fin 0"
    by (rule dscr_zero_at_tiny_rate [OF r(2,3)]) simp_all
  moreover have "dscr (fst (calculate_binary64 (new_DealModel (Fin 1000000) (Fin 80000)
      (Fin 750000) (Fin r) (Fin 25) (binary64 (42 / 10))))) = Fin 0"
    by (rule dscr_zero_at_tiny_rate [OF r(2,3)]) simp_all
  ultimately show ?thesis unfolding r(1) by simp
qed

text \<open>
  C10, amended. With a positive income, a rate that is not negative, a positive
  amortization period and a loan that grows from \<open>L1 > 0\<close> to \<open>L2 > L1\<close>, all other
  inputs fixed, the coverage ratio that \<open>calculate\<close> computes on doubles never increases:
  the ratio at \<open>L2\<close> is not greater than the ratio at \<open>L1\<close>, and it is less than or equal
  to it whenever both are numbers. (It can be equal at a positive rate, so the decrease is
  not strict.)
\<close>

theorem dscr_never_increases_in_loan:
  assumes "0 < noi" and "0 \<le> rate" and "0 < years" and "0 < L1" and "L1 < L2"
  shows "\<not> dscr (fst (calculate_binary64
             (new_DealModel pv (Fin noi) (Fin L1) (Fin rate) (Fin years) sofr)))
           < dscr (fst (calculate_binary64
             (new_DealModel pv (Fin noi) (Fin L2) (Fin rate) (Fin years) sofr)))
       \<and> (dscr (fst (calculate_binary64
             (new_DealModel pv (Fin noi) (Fin L1) (Fin rate) (Fin years) sofr))) = NaN
          \<or> dscr (fst (calculate_binary64
             (new_DealModel pv (Fin noi) (Fin L2) (Fin rate) (Fin years) sofr))) = NaN
          \<or> dscr (fst (calculate_binary64
             (new_DealModel pv (Fin noi) (Fin L2) (Fin rate) (Fin years) sofr)))
            \<le> dscr (fst (calculate_binary64
             (new_DealModel pv (Fin noi) (Fin L1) (Fin rate) (Fin years) sofr))))"
  using dscr_binary64_weakly_decreasing [OF assms, of pv sofr]
  by (intro conjI not_less_number)

theorem dscr_never_increases_in_loan_witness:
  "(0::real) < 80000 \<and> (0::real) \<le> 5.5 \<and> (0::real) < 25 \<and> (0::real) < 700000
   \<and> (700000::real) < 750000
   \<and> \<not> dscr (fst (calculate_binary64 (new_DealModel (Fin 1000000) (Fin 80000) (Fin 700000)
          (Fin 5.5) (Fin 25) (binary64 (42 / 10)))))
       < dscr (fst (calculate_binary64 (new_DealModel (Fin 1000000) (Fin 80000) (Fin 750000)
          (Fin 5.5) (Fin 25) (binary64 (42 / 10)))))"
  using dscr_never_increases_in_loan
    [where noi=80000 and rate="5.5" and years=25 and ?L1.0=700000 and ?L2.0=750000
       and pv="Fin 1000000" and sofr="binary64 (42 / 10)"]
  by simp

subsection \<open>The two LTV bands\<close>

text \<open>
  C7, as the specification states it, fails: an implied LTV of 72 percent is CONSERVATIVE
  for the market validation and STANDARD for the deal model.
\<close>

theorem ltv_bands_differ:
  "map_option riskLevel (calculateImpliedLTV (Fin 72) (Fin 100)) = Some ''CONSERVATIVE''
   \<and> map_option impliedLTV (calculateImpliedLTV (Fin 72) (Fin 100)) = Some (Fin 72)
   \<and> level (getLTVRisk (Fin 72)) = ''STANDARD''"
  by (simp add: calculateImpliedLTV_def getLTVRisk_def truthy_def Let_def toFixed_def)

text \<open>
  C7, amended. For a finite loan amount other than zero and a positive finite value, the
  market validation assigns the same four labels with thresholds five points higher: up to
  75 CONSERVATIVE, up to 80 STANDARD, up to 85 AGGRESSIVE, above that HIGH_RISK. Its band
  is the deal model's band of the implied LTV less five points, and the two functions
  agree on an LTV exactly when it is at most 70 or above 85.
\<close>

theorem implied_ltv_band:
  assumes "loan \<noteq> 0" and "0 < v"
  shows "map_option riskLevel (calculateImpliedLTV (Fin loan) (Fin v)) =
           Some (if loan / v * 100 \<le> 75 then ''CONSERVATIVE''
                 else if loan / v * 100 \<le> 80 then ''STANDARD''
                 else if loan / v * 100 \<le> 85 then ''AGGRESSIVE''
                 else ''HIGH_RISK'')
       \<and> map_option riskLevel (calculateImpliedLTV (Fin loan) (Fin v)) =
           Some (level (getLTVRisk (Fin (loan / v * 100) - Fin 5)))
       \<and> (map_option riskLevel (calculateImpliedLTV (Fin loan) (Fin v)) =
            Some (level (getLTVRisk (Fin (loan / v * 100)))))
         = (loan / v * 100 \<le> 70 \<or> 85 < loan / v * 100)"
  using assms
  by (simp add: calculateImpliedLTV_def getLTVRisk_def truthy_def Let_def)

theorem implied_ltv_band_witness:
  "(72::real) \<noteq> 0 \<and> (0::real) < 100
   \<and> map_option riskLevel (calculateImpliedLTV (Fin 72) (Fin 100)) =
        Some (level (getLTVRisk (Fin 67)))"
  using implied_ltv_band [of 72 100] by simp

subsection \<open>Validation of the deal inputs\<close>

lemma missingInputs_mem:
  "(k \<in> set (missingInputs i)) =
     ((k = ''propertyValue'' \<and> (isNaN (input_propertyValue i) \<or> input_propertyValue i \<le> Fin 0))
    \<or> (k = ''annualNOI'' \<and> (isNaN (input_annualNOI i) \<or> input_annualNOI i \<le> Fin 0))
    \<or> (k = ''loanAmount'' \<and> (isNaN (input_loanAmount i) \<or> input_loanAmount i \<le> Fin 0))
    \<or> (k = ''interestRate'' \<and> (isNaN (input_interestRate i) \<or> input_interestRate i \<le> Fin 0))
    \<or> (k = ''amortizationMonths''
         \<and> (isNaN (input_amortizationMonths i) \<or> input_amortizationMonths i \<le> Fin 0))
    \<or> (k = ''sofrRate'' \<and> (isNaN (input_sofrRate i) \<or> input_sofrRate i \<le> Fin 0)))"
  by (auto simp add: missingInputs_def)

lemma getCreditDecision_after_calculate:
  "fst (getCreditDecision (snd (calculate m))) = fst (getCreditDecision m)"
  by (simp add: getCreditDecision_def calculate_twice)

lemma calculateDeal_cases:
  "calculateDeal i =
     (if missingInputs i \<noteq> [] then Inl (missingInputs i)
      else Inr (fst (calculate (new_DealModel (input_propertyValue i) (input_annualNOI i)
                       (input_loanAmount i) (input_interestRate i)
                       (input_amortizationMonths i / Fin 12) (input_sofrRate i))),
                fst (getCreditDecision (new_DealModel (input_propertyValue i) (input_annualNOI i)
                       (input_loanAmount i) (input_interestRate i)
                       (input_amortizationMonths i / Fin 12) (input_sofrRate i)))))"
  by (simp add: calculateDeal_def Let_def case_prod_beta getCreditDecision_after_calculate)

lemma App_calculateDeal_cases:
  "App_calculateDeal pv noi loan rate years treasury =
     (if logical_or_zero pv \<le> Fin 0 \<or> logical_or_zero noi \<le> Fin 0
      then Inl ''Please enter valid property value and NOI amounts''
      else Inr (fst (calculate (new_DealModel (logical_or_zero pv) (logical_or_zero noi)
                       (logical_or_zero loan) (logical_or_zero rate) (logical_or_zero years)
                       (logical_or_zero treasury))),
                fst (getCreditDecision (new_DealModel (logical_or_zero pv) (logical_or_zero noi)
                       (logical_or_zero loan) (logical_or_zero rate) (logical_or_zero years)
                       (logical_or_zero treasury)))))"
  by (simp add: App_calculateDeal_def Let_def case_prod_beta getCreditDecision_after_calculate)

lemma missing_loan_is_computed:
  "\<not> isl (App_calculateDeal (Fin 1000000) (Fin 80000) NaN (Fin 5.5) (Fin 25) (Fin 4.2))
   \<and> actualLTV (fst (projr (App_calculateDeal
        (Fin 1000000) (Fin 80000) NaN (Fin 5.5) (Fin 25) (Fin 4.2)))) = Fin 0
   \<and> dscr (fst (projr (App_calculateDeal
        (Fin 1000000) (Fin 80000) NaN (Fin 5.5) (Fin 25) (Fin 4.2)))) = PosInf
   \<and> decision (snd (projr (App_calculateDeal
        (Fin 1000000) (Fin 80000) NaN (Fin 5.5) (Fin 25) (Fin 4.2)))) = STRONG_APPROVE"
proof -
  have "(1::real) < (2411 / 2400) ^ 300"
    by (rule one_less_power) simp_all
  then have "(2411 / 2400 :: real) ^ 300 \<noteq> 1"
    by (rule less_imp_neq [THEN not_sym])
  then show ?thesis
    by (simp add: App_calculateDeal_cases logical_or_zero_def truthy_def Let_def
        calculate_new getCreditDecision_tiers tier_STRONG_APPROVE_def
        Math_pow_nat [of 300, simplified])
qed

lemma validateInputs_mem:
  "(msg \<in> set (validateInputs m)) =
     ((msg = ''Property value must be positive'' \<and> propertyValue m \<le> Fin 0)
    \<or> (msg = ''Annual NOI must be positive'' \<and> annualNOI m \<le> Fin 0)
    \<or> (msg = ''Loan amount must be positive'' \<and> loanAmount m \<le> Fin 0)
    \<or> (msg = ''Interest rate must be between 0% and 20%''
         \<and> (interestRate m \<le> Fin 0 \<or> interestRate m > Fin 20))
    \<or> (msg = ''Amortization must be between 1 and 50 years''
         \<and> (amortizationYears m < Fin 1 \<or> amortizationYears m > Fin 50))
    \<or> (msg = ''SOFR rate must be between 0% and 10%''
         \<and> (sofrRate m < Fin 0 \<or> sofrRate m > Fin 10))
    \<or> (msg = ''Loan amount cannot exceed property value'' \<and> loanAmount m > propertyValue m)
    \<or> (msg = ''NOI seems unusually high relative to property value''
         \<and> annualNOI m > propertyValue m * Fin 0.2)
    \<or> (msg = ''Interest rate should be higher than SOFR rate''
         \<and> interestRate m < sofrRate m))"
  by (auto simp add: validateInputs_def)

text \<open>
  C3, as the specification states it, fails: an interest rate of 25 percent is out of
  bounds and \<open>validateInputs\<close> names it, yet the deal form computes and displays the
  metrics of this input. And the calculator of the application replaces a missing loan
  amount by 0 and computes: the LTV is 0, the coverage ratio is infinite, and the decision
  is STRONG_APPROVE.
\<close>

theorem out_of_bound_rate_is_computed:
  "violates_documented_bound
     \<lparr>input_propertyValue = Fin 1000000, input_annualNOI = Fin 80000,
      input_loanAmount = Fin 750000, input_interestRate = Fin 25,
      input_amortizationMonths = Fin 300, input_sofrRate = Fin 4.2\<rparr>
   \<and> validateInputs (new_DealModel (Fin 1000000) (Fin 80000) (Fin 750000) (Fin 25)
        (Fin 300 / Fin 12) (Fin 4.2)) = [''Interest rate must be between 0% and 20%'']
   \<and> \<not> isl (calculateDeal
        \<lparr>input_propertyValue = Fin 1000000, input_annualNOI = Fin 80000,
         input_loanAmount = Fin 750000, input_interestRate = Fin 25,
         input_amortizationMonths = Fin 300, input_sofrRate = Fin 4.2\<rparr>)
   \<and> actualLTV (fst (projr (calculateDeal
        \<lparr>input_propertyValue = Fin 1000000, input_annualNOI = Fin 80000,
         input_loanAmount = Fin 750000, input_interestRate = Fin 25,
         input_amortizationMonths = Fin 300, input_sofrRate = Fin 4.2\<rparr>))) = Fin 75
   \<and> actualCapRate (fst (projr (calculateDeal
        \<lparr>input_propertyValue = Fin 1000000, input_annualNOI = Fin 80000,
         input_loanAmount = Fin 750000, input_interestRate = Fin 25,
         input_amortizationMonths = Fin 300, input_sofrRate = Fin 4.2\<rparr>))) = Fin 8
   \<and> \<not> isl (App_calculateDeal (Fin 1000000) (Fin 80000) NaN (Fin 5.5) (Fin 25) (Fin 4.2))
   \<and> actualLTV (fst (projr (App_calculateDeal
        (Fin 1000000) (Fin 80000) NaN (Fin 5.5) (Fin 25) (Fin 4.2)))) = Fin 0
   \<and> dscr (fst (projr (App_calculateDeal
        (Fin 1000000) (Fin 80000) NaN (Fin 5.5) (Fin 25) (Fin 4.2)))) = PosInf
   \<and> decision (snd (projr (App_calculateDeal
        (Fin 1000000) (Fin 80000) NaN (Fin 5.5) (Fin 25) (Fin 4.2)))) = STRONG_APPROVE"
proof (intro conjI)
  show "violates_documented_bound
     \<lparr>input_propertyValue = Fin 1000000, input_annualNOI = Fin 80000,
      input_loanAmount = Fin 750000, input_interestRate = Fin 25,
      input_amortizationMonths = Fin 300, input_sofrRate = Fin 4.2\<rparr>"
    by (simp add: violates_documented_bound_def)
  show "validateInputs (new_DealModel (Fin 1000000) (Fin 80000) (Fin 750000) (Fin 25)
        (Fin 300 / Fin 12) (Fin 4.2)) = [''Interest rate must be between 0% and 20%'']"
    by (simp add: validateInputs_def new_DealModel_def)
  show "\<not> isl (calculateDeal
        \<lparr>input_propertyValue = Fin 1000000, input_annualNOI = Fin 80000,
         input_loanAmount = Fin 750000, input_interestRate = Fin 25,
         input_amortizationMonths = Fin 300, input_sofrRate = Fin 4.2\<rparr>)"
    by (simp add: calculateDeal_cases missingInputs_def isNaN_def)
  show "actualLTV (fst (projr (calculateDeal
        \<lparr>input_propertyValue = Fin 1000000, input_annualNOI = Fin 80000,
         input_loanAmount = Fin 750000, input_interestRate = Fin 25,
         input_amortizationMonths = Fin 300, input_sofrRate = Fin 4.2\<rparr>))) = Fin 75"
    by (simp add: calculateDeal_cases missingInputs_def isNaN_def calculate_new Let_def)
  show "actualCapRate (fst (projr (calculateDeal
        \<lparr>input_propertyValue = Fin 1000000, input_annualNOI = Fin 80000,
         input_loanAmount = Fin 750000, input_interestRate = Fin 25,
         input_amortizationMonths = Fin 300, input_sofrRate = Fin 4.2\<rparr>))) = Fin 8"
    by (simp add: calculateDeal_cases missingInputs_def isNaN_def calculate_new Let_def)
qed (simp_all only: missing_loan_is_computed simp_thms)

text \<open>
  C3, amended. \<open>validateInputs\<close> computes no metric and returns a list that names every
  violated constraint: a message is in the list exactly when its check fails (positive
  property value, income and loan amount, a rate in \<open>(0, 20]\<close>, an amortization of 1 to 50
  years, an index rate of 0 to 10 percent, and the three plausibility checks). The list is
  advisory: \<open>calculate\<close> does not consult it. The deal form refuses to compute exactly
  when one of its six inputs is \<open>NaN\<close> or not positive, and then names every such input;
  for every other input it computes the metrics and the decision. The calculator of the
  application replaces every input that is missing or zero by 0, refuses only a property
  value or an income that is then not positive, and computes in every other case.
\<close>

theorem deal_input_validation:
  "(msg \<in> set (validateInputs m)) =
     ((msg = ''Property value must be positive'' \<and> propertyValue m \<le> Fin 0)
    \<or> (msg = ''Annual NOI must be positive'' \<and> annualNOI m \<le> Fin 0)
    \<or> (msg = ''Loan amount must be positive'' \<and> loanAmount m \<le> Fin 0)
    \<or> (msg = ''Interest rate must be between 0% and 20%''
         \<and> (interestRate m \<le> Fin 0 \<or> interestRate m > Fin 20))
    \<or> (msg = ''Amortization must be between 1 and 50 years''
         \<and> (amortizationYears m < Fin 1 \<or> amortizationYears m > Fin 50))
    \<or> (msg = ''SOFR rate must be between 0% and 10%''
         \<and> (sofrRate m < Fin 0 \<or> sofrRate m > Fin 10))
    \<or> (msg = ''Loan amount cannot exceed property value'' \<and> loanAmount m > propertyValue m)
    \<or> (msg = ''NOI seems unusually high relative to property value''
         \<and> annualNOI m > propertyValue m * Fin 0.2)
    \<or> (msg = ''Interest rate should be higher than SOFR rate''
         \<and> interestRate m < sofrRate m))
   \<and> calculateDeal i =
     (if missingInputs i \<noteq> [] then Inl (missingInputs i)
      else Inr (fst (calculate (new_DealModel (input_propertyValue i) (input_annualNOI i)
                       (input_loanAmount i) (input_interestRate i)
                       (input_amortizationMonths i / Fin 12) (input_sofrRate i))),
                fst (getCreditDecision (new_DealModel (input_propertyValue i) (input_annualNOI i)
                       (input_loanAmount i) (input_interestRate i)
                       (input_amortizationMonths i / Fin 12) (input_sofrRate i)))))
   \<and> (k \<in> set (missingInputs i)) =
     ((k = ''propertyValue'' \<and> (isNaN (input_propertyValue i) \<or> input_propertyValue i \<le> Fin 0))
    \<or> (k = ''annualNOI'' \<and> (isNaN (input_annualNOI i) \<or> input_annualNOI i \<le> Fin 0))
    \<or> (k = ''loanAmount'' \<and> (isNaN (input_loanAmount i) \<or> input_loanAmount i \<le> Fin 0))
    \<or> (k = ''interestRate'' \<and> (isNaN (input_interestRate i) \<or> input_interestRate i \<le> Fin 0))
    \<or> (k = ''amortizationMonths''
         \<and> (isNaN (input_amortizationMonths i) \<or> input_amortizationMonths i \<le> Fin 0))
    \<or> (k = ''sofrRate'' \<and> (isNaN (input_sofrRate i) \<or> input_sofrRate i \<le> Fin 0)))
   \<and> App_calculateDeal pv noi loan rate years treasury =
     (if logical_or_zero pv \<le> Fin 0 \<or> logical_or_zero noi \<le> Fin 0
      then Inl ''Please enter valid property value and NOI amounts''
      else Inr (fst (calculate (new_DealModel (logical_or_zero pv) (logical_or_zero noi)
                       (logical_or_zero loan) (logical_or_zero rate) (logical_or_zero years)
                       (logical_or_zero treasury))),
                fst (getCreditDecision (new_DealModel (logical_or_zero pv) (logical_or_zero noi)
                       (logical_or_zero loan) (logical_or_zero rate) (logical_or_zero years)
                       (logical_or_zero treasury)))))"
  using validateInputs_mem [of msg m] calculateDeal_cases [of i] missingInputs_mem [of k i]
    App_calculateDeal_cases [of pv noi loan rate years treasury]
  by (intro conjI)

subsection \<open>Volatility\<close>











subsection \<open>Admission of rows\<close>

lemma isValidCapRate_valid: "isValidCapRate v = valid_cap_rate v"
  by (cases "parseFloat v")
     (simp_all add: isValidCapRate_def valid_cap_rate_def isNaN_def Let_def)

lemma year_check:
  "(isNaN y \<or> y < Fin 2020 \<or> y > Fin 2025) =
     (\<not> (case y of Fin year \<Rightarrow> 2020 \<le> year \<and> year \<le> 2025 | _ \<Rightarrow> False))"
  by (cases y) (auto simp add: isNaN_def)

lemma half_check:
  "(isNaN h \<or> (\<not> strict_eq h (Fin 1) \<and> \<not> strict_eq h (Fin 2))) =
     (\<not> (h = Fin 1 \<or> h = Fin 2))"
  by (cases h) (auto simp add: isNaN_def strict_eq_def)

lemma sector_check:
  "(\<not> truthy_string s \<or> length (ToString s) < 3) =
     (\<not> (case s of None \<Rightarrow> False | Some t \<Rightarrow> 3 \<le> length t))"
  by (cases s) (auto simp add: truthy_string_def ToString_def)

lemma processData_filter:
  "processData rawData =
     map (\<lambda>row. RawRow.extend row
            (ProcessedRow.fields
               (calculateAverage (H1_Low row) (H1_High row))
               (calculateAverage (H2_Low row) (H2_High row))
               (ToString (Report_Year row) @ ''_'' @ ToString (Report_Half row))
               (isValidMarket (Market row))))
       (filter admissible rawData)"
proof -
  have "\<And>row::RawRow.
          (let year = parseInt (Report_Year row)
           in if isNaN year \<or> year < Fin 2020 \<or> year > Fin 2025 then False
              else
                let half = parseInt (Report_Half row)
                in if isNaN half \<or> (\<not> strict_eq half (Fin 1) \<and> \<not> strict_eq half (Fin 2))
                   then False
                   else if \<not> truthy_string (Sector row) \<or> length (ToString (Sector row)) < 3
                   then False
                   else isValidCapRate (H1_Low row) \<or> isValidCapRate (H1_High row)
                        \<or> isValidCapRate (H2_Low row) \<or> isValidCapRate (H2_High row))
           = admissible row"
    unfolding Let_def year_check half_check sector_check isValidCapRate_valid admissible_def
    by auto
  then show ?thesis by (simp add: processData_def)
qed

lemma truncate_extend: "RawRow.truncate (RawRow.extend r m) = r"
  by (simp add: RawRow.defs)

lemma admissible_extend: "admissible (RawRow.extend r m) = admissible r"
  by (simp add: admissible_def RawRow.defs)

subsection \<open>Evaluation on the example rows\<close>

lemmas string_defs = ToString_def is_whitespace_def strip_sign_def is_radix_digit_def
  digit_value_def is_digit_def digits_value_def trim_def is_letter_def to_lower_def
  starts_with_ci_def equals_ci_def truthy_string_def

lemmas parse_defs = parseInt_def parseFloat_def scan_decimal_def scan_exponent_def
  Number_def radix_literal_def

lemmas row_defs = isValidCapRate_def isValidMarket_def calculateAverage_def isNaN_def
  RawRow.defs ProcessedRow.defs

lemmas example_defs = dallas_row_def office_row_def heading_row_def fixture_row_def

lemmas aggregate_defs = filterData_def rates_of_def logical_or_def pushed_rates_def truthy_def
  mean_of_def toFixed_def Math_min_def Math_max_def Set_values_def Array_sort_def
  comparePeriods_def period_year_def period_half_def strict_eq_def

lemma processData_examples:
  "processData [dallas_row, office_row, heading_row, fixture_row] =
     [RawRow.extend dallas_row
        \<lparr>h1_avg = Some (Fin 5), h2_avg = Some (Fin 4.7), period_key = ''2024_1'',
         is_valid_market = True\<rparr>,
      RawRow.extend office_row
        \<lparr>h1_avg = Some (Fin 6.5), h2_avg = None, period_key = ''2023_2'',
         is_valid_market = True\<rparr>,
      RawRow.extend heading_row
        \<lparr>h1_avg = Some (Fin 6), h2_avg = Some (Fin 5.7), period_key = ''2024_2'',
         is_valid_market = False\<rparr>]"
  by (simp add: processData_def example_defs string_defs parse_defs row_defs Let_def)

lemma sectors_examples:
  "getSectors (loadCapRateData [dallas_row, office_row, heading_row, fixture_row]) =
       [''Industrial'', ''Office'', ''Retail'']"
  unfolding getSectors_def loadCapRateData_def processData_examples
  by (simp add: Set_values_def RawRow.defs example_defs string_defs)

lemma periods_examples:
  "getPeriods (loadCapRateData [dallas_row, office_row, heading_row, fixture_row]) =
       [''2023_2'', ''2024_1'', ''2024_2'']"
  unfolding getPeriods_def loadCapRateData_def processData_examples
  by (simp add: RawRow.defs example_defs string_defs parse_defs aggregate_defs Let_def)

lemma comparison_examples:
  "getSectorComparison (loadCapRateData [dallas_row, office_row, heading_row, fixture_row]) =
       [\<lparr>sc_sector = ''Industrial'', sc_avgRate = Fin 5, sc_count = 1\<rparr>,
        \<lparr>sc_sector = ''Office'', sc_avgRate = Fin 6.5, sc_count = 1\<rparr>]"
  unfolding getSectorComparison_def sectors_examples
  unfolding loadCapRateData_def processData_examples
  by (simp add: RawRow.defs example_defs aggregate_defs truthy_string_def Let_def)

lemma series_examples:
  "getTimeSeriesData (loadCapRateData [dallas_row, office_row, heading_row, fixture_row])
      None None =
       [\<lparr>ts_period = ''2023_2'', ts_avgRate = Fin 6.5, ts_count = 1\<rparr>,
        \<lparr>ts_period = ''2024_1'', ts_avgRate = Fin 5, ts_count = 1\<rparr>]"
  unfolding getTimeSeriesData_def periods_examples
  unfolding loadCapRateData_def processData_examples
  by (simp add: RawRow.defs example_defs filterData_def rates_of_def logical_or_def
      truthy_def mean_of_def toFixed_def truthy_string_def Let_def)

lemma industrial_series_examples:
  "getTimeSeriesData (loadCapRateData [dallas_row, office_row, heading_row, fixture_row])
      (Some ''Industrial'') None =
       [\<lparr>ts_period = ''2024_1'', ts_avgRate = Fin 5, ts_count = 1\<rparr>]"
  unfolding getTimeSeriesData_def periods_examples
  unfolding loadCapRateData_def processData_examples
  by (simp add: RawRow.defs example_defs filterData_def rates_of_def logical_or_def
      truthy_def mean_of_def toFixed_def truthy_string_def Let_def)

lemma multi_series_examples:
  "ms_periods (getMultiSectorTimeSeriesData
      (loadCapRateData [dallas_row, office_row, heading_row, fixture_row]) None None) =
       [''2023_2'', ''2024_1'', ''2024_2'']
   \<and> ms_sectors (getMultiSectorTimeSeriesData
      (loadCapRateData [dallas_row, office_row, heading_row, fixture_row]) None None) =
       [''Industrial'', ''Office'', ''Retail'']
   \<and> ms_data (getMultiSectorTimeSeriesData
      (loadCapRateData [dallas_row, office_row, heading_row, fixture_row]) None None)
      ''Industrial'' = Some [None, Some (Fin 5), None]
   \<and> ms_data (getMultiSectorTimeSeriesData
      (loadCapRateData [dallas_row, office_row, heading_row, fixture_row]) None None)
      ''Retail'' = Some [None, None, None]"
  unfolding getMultiSectorTimeSeriesData_def periods_examples sectors_examples
  unfolding loadCapRateData_def processData_examples
  by (simp add: RawRow.defs example_defs filterData_def rates_of_def logical_or_def
      truthy_def mean_of_def toFixed_def truthy_string_def Let_def)



lemma well_formed_examples:
  "list_all (\<lambda>row. well_formed_key (period_key row))
     (processData [dallas_row, office_row, heading_row, fixture_row])"
  unfolding processData_examples
  by (simp add: well_formed_key_def RawRow.defs string_defs parse_defs aggregate_defs)

text \<open>
  C4. \<open>processData\<close> returns, in their order and each with its calculated fields, exactly
  the rows of the batch that are admissible: the year parses to an integer from 2020 to
  2025, the half parses to 1 or 2, the sector is present with at least three characters, and
  one of the four rate fields is a valid cap rate. Every row of the output is admissible,
  and the admitted rows and the rejected rows together are all the rows.
\<close>

theorem processData_admits_admissible:
  "map RawRow.truncate (processData rows) = filter admissible rows
   \<and> list_all admissible (processData rows)
   \<and> length (processData rows) + length (filter (\<lambda>row. \<not> admissible row) rows)
       = length rows"
proof (intro conjI)
  show "map RawRow.truncate (processData rows) = filter admissible rows"
    by (simp add: processData_filter comp_def truncate_extend)
  show "list_all admissible (processData rows)"
    by (simp add: processData_filter list_all_iff admissible_extend)
  show "length (processData rows) + length (filter (\<lambda>row. \<not> admissible row) rows)
          = length rows"
    using sum_length_filter_compl [of admissible rows] by (simp add: processData_filter)
qed

theorem processData_admits_admissible_witness:
  "map RawRow.truncate (processData [dallas_row, office_row, heading_row, fixture_row]) =
     [dallas_row, office_row, heading_row]
   \<and> filter admissible [dallas_row, office_row, heading_row, fixture_row] =
     [dallas_row, office_row, heading_row]
   \<and> length (processData [dallas_row, office_row, heading_row, fixture_row]) = 3
   \<and> length (filter (\<lambda>row. \<not> admissible row)
        [dallas_row, office_row, heading_row, fixture_row]) = 1"
  using processData_admits_admissible [of "[dallas_row, office_row, heading_row, fixture_row]"]
  by (simp add: processData_examples truncate_extend)

subsection \<open>Distinct values, sorting and tabulation\<close>

lemma set_Set_values [simp]: "set (Set_values xs) = set xs"
  by (simp add: Set_values_def)

lemma distinct_Set_values [simp]: "distinct (Set_values xs)"
  by (simp add: Set_values_def)

lemma set_insert_sorted [simp]: "set (insert_sorted cmp x ys) = insert x (set ys)"
  by (induction ys) auto

lemma set_Array_sort [simp]: "set (Array_sort cmp xs) = set xs"
  by (induction xs) (simp_all add: Array_sort_def)

lemma map_of_tabulate:
  "map_of (map (\<lambda>k. (k, f k)) ks) k = (if k \<in> set ks then Some (f k) else None)"
  by (induction ks) auto

subsection \<open>The rates that enter an aggregate\<close>

lemma toFixed_zero [simp]: "toFixed d (Fin 0) = Fin 0"
  by (simp add: toFixed_def)

lemma rates_of_Nil [simp]: "rates_of [] = []"
  by (simp add: rates_of_def)












lemma multi_series_cells:
  assumes "sector \<in> set (ms_sectors (getMultiSectorTimeSeriesData svc filterSector filterMarket))"
  shows "ms_data (getMultiSectorTimeSeriesData svc filterSector filterMarket) sector =
     Some (map (\<lambda>period.
       let rates = rates_of (filter (\<lambda>row. period_key row = period \<and> Sector row = Some sector)
                     (filterData svc \<lparr>c_sector = filterSector, c_market = filterMarket,
                        c_period = None, validMarketOnly = True\<rparr>))
       in if rates = [] then None else Some (toFixed 2 (mean_of rates)))
       (getPeriods svc))"
proof -
  have cell: "\<And>rows. (if length rows > 0 then
                    (let rates = rates_of rows
                     in if length rates > 0 then Some (toFixed 2 (mean_of rates)) else None)
                  else None) =
       (let rates = rates_of rows in if rates = [] then None else Some (toFixed 2 (mean_of rates)))"
    by (simp add: Let_def)
  from assms show ?thesis
    unfolding getMultiSectorTimeSeriesData_def Let_def
    by (simp add: map_of_tabulate cell [unfolded Let_def])
qed





subsection \<open>Records without a valid market\<close>

lemma filterData_valid_only:
  "filterData (svc\<lparr>processedData := Some rows\<rparr>)
       \<lparr>c_sector = s, c_market = m, c_period = p, validMarketOnly = True\<rparr> =
   filterData (svc\<lparr>processedData := Some (filter is_valid_market rows)\<rparr>)
       \<lparr>c_sector = s, c_market = m, c_period = p, validMarketOnly = True\<rparr>"
  by (auto simp add: filterData_def intro: filter_cong)

lemma filterData_valid_rows:
  "set (filterData (svc\<lparr>processedData := Some rows\<rparr>)
       \<lparr>c_sector = s, c_market = m, c_period = p, validMarketOnly = True\<rparr>)
   \<subseteq> set (filter is_valid_market rows)"
  by (auto simp add: filterData_def)

lemma getPeriods_set:
  "set (getPeriods (svc\<lparr>processedData := Some rows\<rparr>)) = period_key ` set rows"
  by (simp add: getPeriods_def)

lemma getSectors_set:
  "set (getSectors (svc\<lparr>processedData := Some rows\<rparr>)) =
     {s. s \<noteq> [] \<and> Some s \<in> Sector ` set rows}"
  by (auto simp add: getSectors_def truthy_string_def ToString_def image_iff split: option.splits)

lemma ToString_inj: "inj_on ToString {v. truthy_string v}"
  by (auto simp add: inj_on_def truthy_string_def ToString_def split: option.splits)

lemma getSectors_sorted_distinct:
  "sorted (getSectors (svc\<lparr>processedData := Some rows\<rparr>))
   \<and> distinct (getSectors (svc\<lparr>processedData := Some rows\<rparr>))"
proof -
  have "distinct (map ToString (filter truthy_string (Set_values (map Sector rows))))"
    by (rule iffD2 [OF distinct_map]) (auto intro: inj_on_subset [OF ToString_inj])
  then show ?thesis by (simp add: getSectors_def)
qed

lemma getSectors_valid_sublist:
  "getSectors (svc\<lparr>processedData := Some (filter is_valid_market rows)\<rparr>) =
     filter (\<lambda>s. s \<in> set (getSectors (svc\<lparr>processedData := Some (filter is_valid_market rows)\<rparr>)))
       (getSectors (svc\<lparr>processedData := Some rows\<rparr>))"
proof (rule sorted_distinct_set_unique)
  show "set (getSectors (svc\<lparr>processedData := Some (filter is_valid_market rows)\<rparr>)) =
     set (filter (\<lambda>s. s \<in> set (getSectors (svc\<lparr>processedData := Some (filter is_valid_market rows)\<rparr>)))
       (getSectors (svc\<lparr>processedData := Some rows\<rparr>)))"
    by (auto simp add: getSectors_set)
qed (simp_all add: getSectors_sorted_distinct sorted_wrt_filter)

lemma filter_map_skip:
  assumes "\<And>x. x \<in> set xs \<Longrightarrow> \<not> Q x \<Longrightarrow> \<not> P (f x)"
  shows "filter P (map f xs) = filter P (map f (filter Q xs))"
  using assms by (induction xs) auto

lemma no_valid_row_of_sector:
  assumes "s \<noteq> []" 
    and "s \<notin> set (getSectors (svc\<lparr>processedData := Some (filter is_valid_market rows)\<rparr>))"
  shows "filterData (svc\<lparr>processedData := Some rows\<rparr>)
       \<lparr>c_sector = Some s, c_market = None, c_period = None, validMarketOnly = True\<rparr> = []"
  using assms
  by (auto simp add: getSectors_set filterData_def truthy_string_def filter_empty_conv image_iff)

lemma sector_comparison_valid_market_only:
  "getSectorComparison (svc\<lparr>processedData := Some rows\<rparr>) =
   getSectorComparison (svc\<lparr>processedData := Some (filter is_valid_market rows)\<rparr>)"
proof -
  let ?all = "svc\<lparr>processedData := Some rows\<rparr>"
  let ?valid = "svc\<lparr>processedData := Some (filter is_valid_market rows)\<rparr>"
  let ?entry = "\<lambda>svc sector.
          let sectorData = filterData svc
                \<lparr>c_sector = Some sector, c_market = None, c_period = None,
                 validMarketOnly = True\<rparr>;
              rates = rates_of sectorData;
              avgRate = (if length rates > 0 then mean_of rates else Fin 0)
          in \<lparr>sc_sector = sector, sc_avgRate = toFixed 2 avgRate,
              sc_count = length sectorData\<rparr>"
  have entry: "?entry ?all = ?entry ?valid"
    by (simp only: filterData_valid_only [where svc=svc and rows=rows])
  have "getSectorComparison ?all =
          filter (\<lambda>item. sc_avgRate item > Fin 0) (map (?entry ?all) (getSectors ?all))"
    by (simp add: getSectorComparison_def)
  also have "\<dots> = filter (\<lambda>item. sc_avgRate item > Fin 0)
          (map (?entry ?all) (filter (\<lambda>s. s \<in> set (getSectors ?valid)) (getSectors ?all)))"
  proof (rule filter_map_skip)
    fix s assume "s \<in> set (getSectors ?all)" and "s \<notin> set (getSectors ?valid)"
    then have "s \<noteq> []" by (simp add: getSectors_set)
    from no_valid_row_of_sector [OF this \<open>s \<notin> set (getSectors ?valid)\<close>]
    show "\<not> sc_avgRate (?entry ?all s) > Fin 0" by (simp add: Let_def)
  qed
  also have "\<dots> = filter (\<lambda>item. sc_avgRate item > Fin 0) (map (?entry ?valid) (getSectors ?valid))"
    using getSectors_valid_sublist [where svc=svc and rows=rows] entry by simp
  also have "\<dots> = getSectorComparison ?valid"
    by (simp add: getSectorComparison_def)
  finally show ?thesis .
qed


lemma time_series_valid_market_only:
  "set (getTimeSeriesData (svc\<lparr>processedData := Some rows\<rparr>) sector market) =
   set (getTimeSeriesData (svc\<lparr>processedData := Some (filter is_valid_market rows)\<rparr>)
          sector market)"
proof -
  let ?all = "svc\<lparr>processedData := Some rows\<rparr>"
  let ?valid = "svc\<lparr>processedData := Some (filter is_valid_market rows)\<rparr>"
  let ?filtered = "filterData ?valid
       \<lparr>c_sector = sector, c_market = market, c_period = None, validMarketOnly = True\<rparr>"
  define point where "point = (\<lambda>period.
           let periodData = filter (\<lambda>row. period_key row = period) ?filtered
           in if length periodData > 0 then
                (let avgRates = rates_of periodData
                 in if length avgRates > 0
                    then [\<lparr>ts_period = period, ts_avgRate = toFixed 2 (mean_of avgRates),
                           ts_count = length periodData\<rparr>]
                    else [])
              else [])"
  have eq: "filterData ?all
       \<lparr>c_sector = sector, c_market = market, c_period = None, validMarketOnly = True\<rparr>
     = ?filtered"
    by (rule filterData_valid_only)
  have all: "getTimeSeriesData ?all sector market = concat (map point (getPeriods ?all))"
    by (simp add: getTimeSeriesData_def eq point_def)
  have valid: "getTimeSeriesData ?valid sector market = concat (map point (getPeriods ?valid))"
    by (simp add: getTimeSeriesData_def point_def)
  have sub: "set ?filtered \<subseteq> set (filter is_valid_market rows)"
    using filterData_valid_rows [where svc=svc and rows=rows and s=sector and m=market and p=None]
    by (simp only: eq)
  have no_point: "point period = []" if "period \<notin> period_key ` set (filter is_valid_market rows)"
    for period
  proof -
    from that sub have "filter (\<lambda>row. period_key row = period) ?filtered = []"
      by (auto simp add: filter_empty_conv)
    then show ?thesis by (simp add: point_def)
  qed
  have "set (concat (map point (getPeriods ?all))) =
        (\<Union>period \<in> period_key ` set rows. set (point period))"
    by (simp only: set_concat set_map getPeriods_set image_image)
  also have "\<dots> = (\<Union>period \<in> period_key ` set (filter is_valid_market rows). set (point period))"
  proof (intro equalityI subsetI)
    fix x assume "x \<in> (\<Union>period \<in> period_key ` set rows. set (point period))"
    then obtain period where p: "period \<in> period_key ` set rows" "x \<in> set (point period)"
      by blast
    then have nonempty: "point period \<noteq> []" by auto
    have "period \<in> period_key ` set (filter is_valid_market rows)"
    proof (rule ccontr)
      assume outside: "period \<notin> period_key ` set (filter is_valid_market rows)"
      from no_point [OF outside] nonempty show False by simp
    qed
    with p show "x \<in> (\<Union>period \<in> period_key ` set (filter is_valid_market rows). set (point period))"
      by blast
  next
    fix x assume "x \<in> (\<Union>period \<in> period_key ` set (filter is_valid_market rows). set (point period))"
    then obtain period where p: "period \<in> period_key ` set (filter is_valid_market rows)"
      "x \<in> set (point period)"
      by blast
    then have "period \<in> period_key ` set rows" by auto
    with p show "x \<in> (\<Union>period \<in> period_key ` set rows. set (point period))" by blast
  qed
  also have "\<dots> = set (concat (map point (getPeriods ?valid)))"
    by (simp only: set_concat set_map getPeriods_set image_image)
  finally show ?thesis by (simp only: all valid)
qed


text \<open>
  C5, as the specification states it, fails: the Retail record of the example rows is
  admitted with an invalid market name, and it contributes neither to the sector comparison
  (which has no entry for Retail) nor to the time series (which has no point for 2024_2,
  the period of that record alone).
\<close>

theorem invalid_market_record_is_left_out:
  "map (\<lambda>row. (Sector row, period_key row, is_valid_market row))
     (processData [dallas_row, office_row, heading_row, fixture_row]) =
     [(Some ''Industrial'', ''2024_1'', True), (Some ''Office'', ''2023_2'', True),
      (Some ''Retail'', ''2024_2'', False)]
   \<and> getSectorComparison (loadCapRateData [dallas_row, office_row, heading_row, fixture_row]) =
       [\<lparr>sc_sector = ''Industrial'', sc_avgRate = Fin 5, sc_count = 1\<rparr>,
        \<lparr>sc_sector = ''Office'', sc_avgRate = Fin 6.5, sc_count = 1\<rparr>]
   \<and> getTimeSeriesData (loadCapRateData [dallas_row, office_row, heading_row, fixture_row])
        None None =
       [\<lparr>ts_period = ''2023_2'', ts_avgRate = Fin 6.5, ts_count = 1\<rparr>,
        \<lparr>ts_period = ''2024_1'', ts_avgRate = Fin 5, ts_count = 1\<rparr>]"
  unfolding comparison_examples series_examples processData_examples
  by (simp add: RawRow.defs example_defs)

text \<open>
  C5, amended. The sector comparison and the time series are computed over the records
  that pass \<open>is_valid_market\<close> only: leaving the records with an invalid market name out
  of the data set changes neither the sector comparison nor the points of the time series.
\<close>

theorem aggregates_use_valid_markets_only:
  "getSectorComparison (svc\<lparr>processedData := Some rows\<rparr>) =
   getSectorComparison (svc\<lparr>processedData := Some (filter is_valid_market rows)\<rparr>)
   \<and> set (getTimeSeriesData (svc\<lparr>processedData := Some rows\<rparr>) sector market) =
     set (getTimeSeriesData (svc\<lparr>processedData := Some (filter is_valid_market rows)\<rparr>)
            sector market)"
  using sector_comparison_valid_market_only [where svc=svc and rows=rows]
    time_series_valid_market_only [where svc=svc and rows=rows]
  by (intro conjI)

theorem aggregates_use_valid_markets_only_witness:
  "getSectorComparison (loadCapRateData [dallas_row, office_row, heading_row, fixture_row]) =
   getSectorComparison
     \<lparr>data = Some [dallas_row, office_row, heading_row, fixture_row],
      processedData = Some (filter is_valid_market
        (processData [dallas_row, office_row, heading_row, fixture_row]))\<rparr>"
  using aggregates_use_valid_markets_only
    [where svc="loadCapRateData [dallas_row, office_row, heading_row, fixture_row]"
       and rows="processData [dallas_row, office_row, heading_row, fixture_row]"]
  by (simp add: loadCapRateData_def)


subsection \<open>The alignment of the time series\<close>

lemma distinct_insert_sorted:
  "distinct (insert_sorted cmp x ys) = (x \<notin> set ys \<and> distinct ys)"
  by (induction ys) auto

lemma distinct_Array_sort [simp]: "distinct (Array_sort cmp xs) = distinct xs"
  by (induction xs)
     (simp_all add: Array_sort_def distinct_insert_sorted set_Array_sort [unfolded Array_sort_def])

lemma well_formed_keyE:
  assumes "well_formed_key k"
  obtains y h where "period_year k = Fin y" and "period_half k = Fin h"
  using assms by (auto simp add: well_formed_key_def split: number.splits)

lemma comparePeriods_chronological:
  assumes "well_formed_key a" and "well_formed_key b"
  shows "(comparePeriods a b > Fin 0) = (\<not> chronological a b)"
proof -
  from assms(1) obtain ya ha where a: "period_year a = Fin ya" "period_half a = Fin ha"
    by (rule well_formed_keyE)
  from assms(2) obtain yb hb where b: "period_year b = Fin yb" "period_half b = Fin hb"
    by (rule well_formed_keyE)
  show ?thesis by (auto simp add: comparePeriods_def chronological_def a b Let_def)
qed

lemma chronological_total:
  "well_formed_key a \<Longrightarrow> well_formed_key b \<Longrightarrow> chronological a b \<or> chronological b a"
  by (erule well_formed_keyE, erule well_formed_keyE) (auto simp add: chronological_def)

lemma chronological_trans:
  "chronological a b \<Longrightarrow> chronological b c \<Longrightarrow> chronological a c"
  by (auto simp add: chronological_def split: number.splits)

lemma insert_sorted_chronological:
  assumes "well_formed_key x" and "list_all well_formed_key ys"
    and "sorted_wrt chronological ys"
  shows "sorted_wrt chronological (insert_sorted comparePeriods x ys)"
  using assms
proof (induction ys)
  case Nil
  then show ?case by simp
next
  case (Cons y ys)
  show ?case
  proof (cases "comparePeriods x y > Fin 0")
    case True
    with Cons.prems have "chronological y x"
      using comparePeriods_chronological [of x y] chronological_total [of x y] by auto
    with True Cons show ?thesis by auto
  next
    case False
    with Cons.prems have xy: "chronological x y"
      using comparePeriods_chronological [of x y] by auto
    with Cons.prems have "\<forall>z\<in>set ys. chronological x z"
      by (auto intro: chronological_trans)
    with False xy Cons.prems show ?thesis by auto
  qed
qed

lemma Array_sort_chronological:
  "list_all well_formed_key xs \<Longrightarrow> sorted_wrt chronological (Array_sort comparePeriods xs)"
proof (induction xs)
  case Nil
  then show ?case by (simp add: Array_sort_def)
next
  case (Cons x xs)
  then have "sorted_wrt chronological (Array_sort comparePeriods xs)" by simp
  moreover from Cons.prems have "list_all well_formed_key (Array_sort comparePeriods xs)"
    by (simp add: list_all_iff)
  ultimately show ?case
    using Cons.prems insert_sorted_chronological [of x "Array_sort comparePeriods xs"]
    by (simp add: Array_sort_def)
qed

lemma getPeriods_chronological:
  assumes "processedData svc = Some rows"
    and "list_all (\<lambda>row. well_formed_key (period_key row)) rows"
  shows "sorted_wrt chronological (getPeriods svc)
       \<and> distinct (getPeriods svc)
       \<and> set (getPeriods svc) = period_key ` set rows"
  using assms by (simp add: getPeriods_def Array_sort_chronological list_all_iff)

lemma single_series_periods:
  "map ts_period (getTimeSeriesData svc sector market) =
     filter (\<lambda>period. rates_of (filter (\<lambda>row. period_key row = period)
                (filterData svc \<lparr>c_sector = sector, c_market = market,
                   c_period = None, validMarketOnly = True\<rparr>)) \<noteq> [])
       (getPeriods svc)"
proof -
  have "\<And>ps f. map ts_period (concat (map (\<lambda>period::string.
           let periodData = f period :: ProcessedRow list
           in if length periodData > 0 then
                (let avgRates = rates_of periodData
                 in if length avgRates > 0
                    then [\<lparr>ts_period = period, ts_avgRate = toFixed 2 (mean_of avgRates),
                           ts_count = length periodData\<rparr>]
                    else [])
              else []) ps)) = filter (\<lambda>period. rates_of (f period) \<noteq> []) ps"
    subgoal for ps f by (induction ps) (auto simp add: Let_def)
    done
  then show ?thesis by (simp add: getTimeSeriesData_def Let_def)
qed


text \<open>
  C6, as the specification states it, fails for the single series: the example rows have
  three periods, and the series of Industrial has one point, for 2024_1; the periods
  2023_2 and 2024_2 are omitted, where the multi-series has \<open>null\<close>.
\<close>

theorem single_series_omits_periods:
  "getPeriods (loadCapRateData [dallas_row, office_row, heading_row, fixture_row]) =
     [''2023_2'', ''2024_1'', ''2024_2'']
   \<and> getTimeSeriesData (loadCapRateData [dallas_row, office_row, heading_row, fixture_row])
        (Some ''Industrial'') None =
     [\<lparr>ts_period = ''2024_1'', ts_avgRate = Fin 5, ts_count = 1\<rparr>]
   \<and> ms_data (getMultiSectorTimeSeriesData
        (loadCapRateData [dallas_row, office_row, heading_row, fixture_row]) None None)
        ''Industrial'' = Some [None, Some (Fin 5), None]"
  by (simp add: periods_examples industrial_series_examples multi_series_examples)

text \<open>
  C6, amended. The multi-series is aligned to the list of periods: for every sector it
  lists it has one entry per period of \<open>getPeriods\<close>, in that order, which is \<open>null\<close>
  exactly when no matching record with a valid market has a rate for that sector and
  period, and else the rounded mean. The single series is not aligned: it has one point,
  labelled with its period, for exactly the periods in which a matching record with a valid
  market has a rate, in the order of \<open>getPeriods\<close>, and omits the other periods. When
  the two pieces of every period key are finite numbers, \<open>getPeriods\<close> lists every period
  key of the data set once, in chronological order: by numeric year, then numeric half.
\<close>

theorem time_series_alignment:
  assumes "processedData svc = Some rows"
    and "list_all (\<lambda>row. well_formed_key (period_key row)) rows"
    and "sector \<in> set (ms_sectors (getMultiSectorTimeSeriesData svc filterSector filterMarket))"
  shows "ms_periods (getMultiSectorTimeSeriesData svc filterSector filterMarket) = getPeriods svc
       \<and> ms_data (getMultiSectorTimeSeriesData svc filterSector filterMarket) sector =
           Some (map (\<lambda>period.
             let rates = rates_of
                   (filter (\<lambda>row. period_key row = period \<and> Sector row = Some sector)
                     (filterData svc \<lparr>c_sector = filterSector, c_market = filterMarket,
                        c_period = None, validMarketOnly = True\<rparr>))
             in if rates = [] then None else Some (toFixed 2 (mean_of rates)))
             (getPeriods svc))
       \<and> map ts_period (getTimeSeriesData svc filterSector filterMarket) =
           filter (\<lambda>period. rates_of (filter (\<lambda>row. period_key row = period)
                      (filterData svc \<lparr>c_sector = filterSector, c_market = filterMarket,
                         c_period = None, validMarketOnly = True\<rparr>)) \<noteq> [])
             (getPeriods svc)
       \<and> sorted_wrt chronological (getPeriods svc)
       \<and> distinct (getPeriods svc)
       \<and> set (getPeriods svc) = period_key ` set rows"
  using multi_series_cells [OF assms(3)] single_series_periods [of svc filterSector filterMarket]
    getPeriods_chronological [OF assms(1,2)]
  by (simp add: getMultiSectorTimeSeriesData_def Let_def)

theorem time_series_alignment_witness:
  "processedData (loadCapRateData [dallas_row, office_row, heading_row, fixture_row]) =
     Some (processData [dallas_row, office_row, heading_row, fixture_row])
   \<and> list_all (\<lambda>row. well_formed_key (period_key row))
       (processData [dallas_row, office_row, heading_row, fixture_row])
   \<and> ''Industrial'' \<in> set (ms_sectors (getMultiSectorTimeSeriesData
        (loadCapRateData [dallas_row, office_row, heading_row, fixture_row]) None None))
   \<and> sorted_wrt chronological [''2023_2'', ''2024_1'', ''2024_2'']
   \<and> map ts_period (getTimeSeriesData
        (loadCapRateData [dallas_row, office_row, heading_row, fixture_row]) None None) =
       filter (\<lambda>period. rates_of (filter (\<lambda>row. period_key row = period)
                  (filterData (loadCapRateData [dallas_row, office_row, heading_row, fixture_row])
                     \<lparr>c_sector = None, c_market = None,
                      c_period = None, validMarketOnly = True\<rparr>)) \<noteq> [])
         [''2023_2'', ''2024_1'', ''2024_2'']
   \<and> ms_data (getMultiSectorTimeSeriesData
        (loadCapRateData [dallas_row, office_row, heading_row, fixture_row]) None None)
        ''Industrial'' = Some [None, Some (Fin 5), None]"
proof -
  let ?rows = "processData [dallas_row, office_row, heading_row, fixture_row]"
  let ?svc = "loadCapRateData [dallas_row, office_row, heading_row, fixture_row]"
  have loaded: "processedData ?svc = Some ?rows"
    by (simp add: loadCapRateData_def)
  have listed: "''Industrial'' \<in> set (ms_sectors (getMultiSectorTimeSeriesData ?svc None None))"
    by (simp add: multi_series_examples)
  note aligned = time_series_alignment [OF loaded well_formed_examples listed]
  from aligned have "sorted_wrt chronological (getPeriods ?svc)" by simp
  then have sorted: "sorted_wrt chronological [''2023_2'', ''2024_1'', ''2024_2'']"
    by (simp only: periods_examples)
  from aligned have single: "map ts_period (getTimeSeriesData ?svc None None) =
       filter (\<lambda>period. rates_of (filter (\<lambda>row. period_key row = period)
                  (filterData ?svc \<lparr>c_sector = None, c_market = None,
                      c_period = None, validMarketOnly = True\<rparr>)) \<noteq> [])
         [''2023_2'', ''2024_1'', ''2024_2'']"
    by (simp only: periods_examples)
  from loaded well_formed_examples listed sorted single show ?thesis
    by (simp only: multi_series_examples simp_thms)
qed

end
